theory Spec2Isabelle
  imports Complex_Main "HOL-Library.Sublist"
begin

section \<open>Data model\<close>

text \<open>
  The repository holds two variants of the application component \<open>App\<close> in
  \<open>src/App.tsx\<close>: the first at lines 1--469 (called variant A below) and the second at
  lines 471--1107 (variant B, the one with \<open>searchCache\<close>). Where their handlers
  differ, both are embedded, with the suffixes \<open>_A\<close> and \<open>_B\<close>; where the state effect
  of a handler is the same text in both, it is embedded once.

  A JavaScript number that reaches a handler from outside (a coordinate, a distance, a
  duration) is read as the real number it denotes, and the comparisons and \<open>toFixed\<close>
  are taken on those reals. Where the code computes a Number from Numbers and shows the
  result (the street route), the rounding of each binary64 operation is modelled, see
  \<open>double\<close> below. NaN, infinities and the sign of zero are outside the model.
\<close>

text \<open>Values produced by \<open>JSON.parse\<close>. An object is the list of its properties.\<close>

datatype json =
    JNull
  | JBool bool
  | JNum real
  | JStr string
  | JArr "json list"
  | JObj "(string \<times> json) list"

text \<open>\<open>types.ts\<close>: \<open>Location\<close> and \<open>TrackingPath\<close>.\<close>

record Location =
  lat :: real
  lng :: real

record TrackingPath =
  timestamp :: int
  location :: Location

datatype status = pending | success | failure

text \<open>
  A business point is built only by \<open>{ ...b, id: ..., status: 'pending' }\<close> and changed only
  by \<open>{ ...b, status }\<close>: it is the seed \<open>b\<close> received from the discovery service with
  the properties \<open>id\<close> and \<open>status\<close> laid over it. A district is
  \<open>{ ...d, id: ..., covered: false }\<close>.
\<close>

record BusinessPoint =
  b_seed :: json
  b_id :: string
  b_status :: status

record District =
  d_seed :: json
  d_id :: string
  covered :: bool

text \<open>
  \<open>ActiveNavigation\<close>; \<open>arrivalTime\<close> exists in variant B only.
\<close>

record ActiveNavigation =
  target :: json
  distance :: string
  time :: string
  arrivalTime :: "string option"
  geometry :: "(real \<times> real) list"

text \<open>
  The state cells of \<open>App\<close> (\<open>useState\<close>) that the session logic reads or writes.
  \<open>cityName\<close> and \<open>cityPopulation\<close> hold whatever value the parsed payload carried
  (\<open>result: any\<close>); \<open>mapCenter\<close> holds the parsed geocode object. \<open>selectedPoint\<close> and
  \<open>followUser\<close> exist in variant B only and are left alone by the handlers of variant A.
  Cells that only drive the presentation (sidebar, dark mode, tabs, suggestion list) are
  left out.
\<close>

record session =
  currentLocation :: "Location option"
  mapCenter :: "json option"
  trackingPath :: "TrackingPath list"
  businesses :: "BusinessPoint list"
  districts :: "District list"
  cityPopulation :: json
  cityName :: json
  isLoading :: bool
  citySearchQuery :: string
  showSuggestions :: bool
  isNavigating :: bool
  activeNavigation :: "ActiveNavigation option"
  selectedPoint :: "json option"
  carRotation :: real
  followUser :: bool

text \<open>
  The initial values of the state cells (\<open>useState(...)\<close>, lines 88--104 and 565--584).
  \<open>INITIAL_COORDS\<close> is line 503.
\<close>

definition locationJson :: "Location \<Rightarrow> json" where
  "locationJson l = JObj [(''lat'', JNum (lat l)), (''lng'', JNum (lng l))]"

definition INITIAL_COORDS :: Location where
  "INITIAL_COORDS = \<lparr>lat = - 37317 / 10000, lng = - 410004 / 10000\<rparr>"

definition initial_B :: session where
  "initial_B = \<lparr>currentLocation = None, mapCenter = Some (locationJson INITIAL_COORDS),
     trackingPath = [], businesses = [], districts = [], cityPopulation = JStr [],
     cityName = JStr [], isLoading = False, citySearchQuery = [], showSuggestions = False,
     isNavigating = False, activeNavigation = None, selectedPoint = None, carRotation = 0,
     followUser = False\<rparr>"

definition initial_A :: session where
  "initial_A = initial_B\<lparr>mapCenter := None\<rparr>"

section \<open>Status reports and the tracking toggle\<close>

text \<open>
  \<open>handleStatusUpdate\<close> (lines 198--201 and 699--702):
  \<open>setBusinesses(prev => prev.map(b => b.id === id ? { ...b, status } : b))\<close>, followed by
  a call of \<open>speakStatus\<close>, which touches no state cell (speech is outside the model).
  The parameter type admits \<open>'success'\<close> and \<open>'failure'\<close>; the model takes any status.
\<close>

definition handleStatusUpdate :: "string \<Rightarrow> status \<Rightarrow> session \<Rightarrow> session" where
  "handleStatusUpdate i st s =
     s\<lparr>businesses := map (\<lambda>b. if b_id b = i then b\<lparr>b_status := st\<rparr> else b) (businesses s)\<rparr>"

text \<open>\<open>toggleNavigation\<close> of variant A (lines 150--160).\<close>

definition toggleNavigation_A :: "session \<Rightarrow> session" where
  "toggleNavigation_A s =
     (if isNavigating s
      then s\<lparr>isNavigating := False, trackingPath := [], activeNavigation := None\<rparr>
      else s\<lparr>isNavigating := True\<rparr>)"

text \<open>\<open>toggleNavigation\<close> of variant B (lines 629--640).\<close>

definition toggleNavigation_B :: "session \<Rightarrow> session" where
  "toggleNavigation_B s =
     (if isNavigating s
      then s\<lparr>isNavigating := False, activeNavigation := None, followUser := False\<rparr>
      else s\<lparr>isNavigating := True, trackingPath := []\<rparr>)"

text \<open>
  The spec's \<open>startTracking\<close> is the toggle pressed while tracking is off, \<open>stopTracking\<close>
  the toggle pressed while it is on.
\<close>

text \<open>The statuses of the business points that carry a given id, in list order.\<close>

definition status_of :: "string \<Rightarrow> session \<Rightarrow> status list" where
  "status_of i s = map b_status (filter (\<lambda>b. b_id b = i) (businesses s))"

section \<open>Location updates\<close>

text \<open>
  \<open>Math.atan2(y, x)\<close> on real numbers: the angle of the point \<open>(x, y)\<close>, in
  \<open>(-\<pi>, \<pi>]\<close>, and \<open>0\<close> at the origin.
\<close>

definition atan2 :: "real \<Rightarrow> real \<Rightarrow> real" where
  "atan2 y x =
     (if 0 < x then arctan (y / x)
      else if x < 0 \<and> 0 \<le> y then arctan (y / x) + pi
      else if x < 0 then arctan (y / x) - pi
      else if 0 < y then pi / 2
      else if y < 0 then - (pi / 2)
      else 0)"

text \<open>
  The heading computed at lines 187--189 and 681--684:
  \<open>dy = loc.lat - currentLocation.lat\<close>, \<open>dx = loc.lng - currentLocation.lng\<close>,
  \<open>Math.atan2(dx, dy) * (180 / Math.PI)\<close>.
\<close>

definition heading :: "Location \<Rightarrow> Location \<Rightarrow> real" where
  "heading cur loc = atan2 (lng loc - lng cur) (lat loc - lat cur) * (180 / pi)"

text \<open>
  \<open>handleLocationUpdate\<close> of variant A (lines 185--196). \<open>now\<close> is the value of
  \<open>Date.now()\<close> read when the track point is built.
\<close>

definition handleLocationUpdate_A :: "int \<Rightarrow> Location \<Rightarrow> session \<Rightarrow> session" where
  "handleLocationUpdate_A now loc s =
     (let s1 = (case currentLocation s of
                  Some cur \<Rightarrow> s\<lparr>carRotation := heading cur loc\<rparr>
                | None \<Rightarrow> s);
          s2 = s1\<lparr>currentLocation := Some loc\<rparr>
      in if isNavigating s
         then s2\<lparr>trackingPath := trackingPath s2 @ [\<lparr>timestamp = now, location = loc\<rparr>]\<rparr>
         else s2)"

text \<open>
  The two tests of variant B: line 683 compares the new sample with the previous one
  (\<open>Math.abs(dy) > 0.000005 || Math.abs(dx) > 0.000005\<close>), line 689 compares it with the
  last recorded point (\<open>> 0.00005\<close> in latitude or in longitude).
\<close>

definition moved :: "Location \<Rightarrow> Location \<Rightarrow> bool" where
  "moved cur loc \<longleftrightarrow>
     \<bar>lat loc - lat cur\<bar> > 5 / 1000000 \<or> \<bar>lng loc - lng cur\<bar> > 5 / 1000000"

definition far :: "Location \<Rightarrow> Location \<Rightarrow> bool" where
  "far rec loc \<longleftrightarrow>
     \<bar>lat rec - lat loc\<bar> > 5 / 100000 \<or> \<bar>lng rec - lng loc\<bar> > 5 / 100000"

text \<open>
  The updater passed to \<open>setTrackingPath\<close> at lines 687--693: \<open>last\<close> is
  \<open>prev[prev.length - 1]\<close>, which is \<open>undefined\<close> for the empty track.
\<close>

definition record_point :: "int \<Rightarrow> Location \<Rightarrow> TrackingPath list \<Rightarrow> TrackingPath list" where
  "record_point now loc prev =
     (if prev = [] \<or> far (location (last prev)) loc
      then prev @ [\<lparr>timestamp = now, location = loc\<rparr>]
      else prev)"

text \<open>
  \<open>handleLocationUpdate\<close> of variant B (lines 679--697). The handler does not read
  \<open>isNavigating\<close>.
\<close>

definition handleLocationUpdate_B :: "int \<Rightarrow> Location \<Rightarrow> session \<Rightarrow> session" where
  "handleLocationUpdate_B now loc s =
     (let s1 = (case currentLocation s of
                  Some cur \<Rightarrow>
                    if moved cur loc
                    then s\<lparr>carRotation := heading cur loc,
                           trackingPath := record_point now loc (trackingPath s)\<rparr>
                    else s
                | None \<Rightarrow> s)
      in s1\<lparr>currentLocation := Some loc\<rparr>)"

text \<open>
  A sequence of location updates, each with the clock reading at which it is handled.
\<close>

fun updates_A :: "(int \<times> Location) list \<Rightarrow> session \<Rightarrow> session" where
  "updates_A [] s = s"
| "updates_A ((now, loc) # es) s = updates_A es (handleLocationUpdate_A now loc s)"

fun updates_B :: "(int \<times> Location) list \<Rightarrow> session \<Rightarrow> session" where
  "updates_B [] s = s"
| "updates_B ((now, loc) # es) s = updates_B es (handleLocationUpdate_B now loc s)"

text \<open>Every two consecutive recorded coordinates pass the test of line 689.\<close>

fun spaced :: "TrackingPath list \<Rightarrow> bool" where
  "spaced [] = True"
| "spaced [p] = True"
| "spaced (p # q # ps) = (far (location p) (location q) \<and> spaced (q # ps))"

definition point :: "int \<times> Location \<Rightarrow> TrackingPath" where
  "point e = \<lparr>timestamp = fst e, location = snd e\<rparr>"

section \<open>JavaScript values and strings\<close>

text \<open>
  The errors the session logic can meet: a \<open>TypeError\<close> (a property read on \<open>null\<close>, a
  call of a method the value does not have), a \<open>SyntaxError\<close> of \<open>JSON.parse\<close>, and
  the rejection of an external call.
\<close>

datatype error = TypeError | SyntaxError | CallRejected

text \<open>
  \<open>v.k\<close> for a parsed value \<open>v\<close> and one of the keys the code reads (\<open>cityName\<close>,
  \<open>cityPopulation\<close>, \<open>bars\<close>, \<open>districts\<close>, \<open>lat\<close>, \<open>lng\<close>): a \<open>TypeError\<close> on
  \<open>null\<close>, the property or \<open>undefined\<close> (\<open>None\<close>) on an object, \<open>undefined\<close> on a
  number, a boolean, a string or an array.
\<close>

fun get_prop :: "json \<Rightarrow> string \<Rightarrow> error + json option" where
  "get_prop JNull k = Inl TypeError"
| "get_prop (JObj kvs) k = Inr (map_of kvs k)"
| "get_prop v k = Inr None"

text \<open>\<open>ToBoolean\<close> on parsed values, and on a value that may be \<open>undefined\<close>.\<close>

fun truthy :: "json \<Rightarrow> bool" where
  "truthy JNull = False"
| "truthy (JBool b) = b"
| "truthy (JNum x) = (x \<noteq> 0)"
| "truthy (JStr s) = (s \<noteq> [])"
| "truthy (JArr xs) = True"
| "truthy (JObj kvs) = True"

fun truthy_opt :: "json option \<Rightarrow> bool" where
  "truthy_opt None = False"
| "truthy_opt (Some v) = truthy v"

text \<open>\<open>v || d\<close>.\<close>

definition or_else :: "json option \<Rightarrow> json \<Rightarrow> json" where
  "or_else v d = (case v of Some x \<Rightarrow> if truthy x then x else d | None \<Rightarrow> d)"

text \<open>
  The receiver of \<open>.map(...)\<close>: the elements when the value is an array; a \<open>TypeError\<close>
  when it is \<open>undefined\<close>, \<open>null\<close> or a parsed value of another kind (none of them
  has a callable \<open>map\<close>).
\<close>

fun elements :: "json option \<Rightarrow> error + json list" where
  "elements (Some (JArr xs)) = Inr xs"
| "elements v = Inl TypeError"

text \<open>
  A string of the program is a sequence of UTF-16 code units; it is represented by the
  bytes of its code units, each encoded as UTF-8 encodes a code point of that value (a
  code unit below 128 is one byte, so an ASCII string is itself). Equality, emptiness and
  concatenation of the representations are those of the program's strings.

  \<open>String.prototype.trim\<close> and \<open>String.prototype.toLowerCase\<close> work on Unicode (\<open>trim\<close>
  strips every Unicode white space and line terminator, \<open>toLowerCase\<close> follows the Unicode
  case mapping); they are not defined here but are parameters of the handlers that call
  them, gathered in the record \<open>string_methods\<close>, and the theorems hold for every value of
  the parameters.

  \<open>ascii_trim\<close> and \<open>ascii_toLowerCase\<close> are what the two methods do on a string of
  printable ASCII characters and ASCII white space (there the white space is the six
  characters below and the cased letters are \<open>A\<close> to \<open>Z\<close>). They are used only in the
  examples, whose strings are all of that kind.
\<close>

record string_methods =
  trim :: "string \<Rightarrow> string"
  toLowerCase :: "string \<Rightarrow> string"

definition is_space :: "char \<Rightarrow> bool" where
  "is_space c \<longleftrightarrow> of_char c \<in> {9, 10, 11, 12, 13, 32 :: nat}"

definition ascii_trim :: "string \<Rightarrow> string" where
  "ascii_trim s = rev (dropWhile is_space (rev (dropWhile is_space s)))"

definition lower :: "char \<Rightarrow> char" where
  "lower c =
     (case map_of (zip ''ABCDEFGHIJKLMNOPQRSTUVWXYZ'' ''abcdefghijklmnopqrstuvwxyz'') c of
        Some d \<Rightarrow> d
      | None \<Rightarrow> c)"

definition ascii_toLowerCase :: "string \<Rightarrow> string" where
  "ascii_toLowerCase s = map lower s"

definition ascii_methods :: string_methods where
  "ascii_methods = \<lparr>trim = ascii_trim, toLowerCase = ascii_toLowerCase\<rparr>"

text \<open>Decimal digits of a natural number, and the same padded with zeros to \<open>f\<close> places.\<close>

definition digit :: "nat \<Rightarrow> char" where
  "digit d = ''0123456789'' ! d"

fun string_of_nat :: "nat \<Rightarrow> string" where
  "string_of_nat n =
     (if n < 10 then [digit n] else string_of_nat (n div 10) @ [digit (n mod 10)])"

declare string_of_nat.simps [simp del]

fun zeros :: "nat \<Rightarrow> string" where
  "zeros 0 = []"
| "zeros (Suc k) = CHR ''0'' # zeros k"

definition pad :: "nat \<Rightarrow> nat \<Rightarrow> string" where
  "pad f n = zeros (f - length (string_of_nat n)) @ string_of_nat n"

text \<open>
  \<open>x.toFixed(f)\<close> for \<open>f \<le> 100\<close> and \<open>\<bar>x\<bar> < 10^21\<close> (ECMAScript,
  Number.prototype.toFixed): a minus sign when \<open>x < 0\<close>; then, for the magnitude, the
  integer \<open>n\<close> with \<open>n / 10^f\<close> nearest to it (the larger one on a tie), written with
  its last \<open>f\<close> digits after the point. Magnitudes from \<open>10^21\<close> on, which the
  language prints in exponent form, are outside the model.
\<close>

definition toFixed :: "nat \<Rightarrow> real \<Rightarrow> string" where
  "toFixed f x =
     (let n = nat \<lfloor>\<bar>x\<bar> * 10 ^ f + 1 / 2\<rfloor>
      in (if x < 0 then ''-'' else [])
         @ string_of_nat (n div 10 ^ f)
         @ (if f = 0 then [] else ''.'' @ pad f (n mod 10 ^ f)))"

text \<open>
  \<open>Math.round(x)\<close> (the nearest integer, the larger one on a tie) and the decimal
  string of an integer, as \<open>+\<close> with a string produces it.
\<close>

definition Math_round :: "real \<Rightarrow> int" where
  "Math_round x = \<lfloor>x + 1 / 2\<rfloor>"

definition string_of_int :: "int \<Rightarrow> string" where
  "string_of_int i = (if i < 0 then ''-'' @ string_of_nat (nat (- i)) else string_of_nat (nat i))"

section \<open>Applying a discovery response\<close>

text \<open>
  \<open>ids k\<close> is the string that the \<open>k\<close>-th evaluation of
  \<open>Math.random().toString(36).substr(2, 9)\<close> yields during the call; the random source
  is an input of the model. Bars take the first draws, districts the following ones.
\<close>

definition mkBusinesses :: "(nat \<Rightarrow> string) \<Rightarrow> json list \<Rightarrow> BusinessPoint list" where
  "mkBusinesses ids bars =
     map (\<lambda>(k, b). \<lparr>b_seed = b, b_id = ids k, b_status = pending\<rparr>) (enumerate 0 bars)"

definition mkDistricts :: "(nat \<Rightarrow> string) \<Rightarrow> nat \<Rightarrow> json list \<Rightarrow> District list" where
  "mkDistricts ids n ds =
     map (\<lambda>(k, d). \<lparr>d_seed = d, d_id = ids k, covered = False\<rparr>) (enumerate n ds)"

text \<open>
  The two fallback labels of lines 672 and 174 (Portuguese for "population on request"
  and "not informed"), with their accented letters in UTF-8.
\<close>

definition POPULATION_UNKNOWN_B :: string where
  "POPULATION_UNKNOWN_B =
     ''Popula'' @ [CHR 0xC3, CHR 0xA7, CHR 0xC3, CHR 0xA3] @ ''o sob consulta''"

definition POPULATION_UNKNOWN_A :: string where
  "POPULATION_UNKNOWN_A = ''N'' @ [CHR 0xC3, CHR 0xA3] @ ''o informado''"

text \<open>
  \<open>applyCityData\<close> (variant B, lines 670--677). Each \<open>set...\<close> call that is reached takes
  effect; a \<open>TypeError\<close> ends the function at the statement that throws, so the result
  is the error, if any, together with the session as the statements before it left it.
  The selected point is the object literal of line 675; its \<open>population\<close> property is
  left out when \<open>result.cityPopulation\<close> is \<open>undefined\<close>.
\<close>

definition applyCityData ::
  "(nat \<Rightarrow> string) \<Rightarrow> json \<Rightarrow> real \<Rightarrow> real \<Rightarrow> string \<Rightarrow> session \<Rightarrow> error option \<times> session" where
  "applyCityData ids result la lo placeName s =
     (case get_prop result ''cityName'' of
        Inl e \<Rightarrow> (Some e, s)
      | Inr cn \<Rightarrow>
     let s1 = s\<lparr>cityName := or_else cn (JStr placeName)\<rparr> in
     (case get_prop result ''cityPopulation'' of
        Inl e \<Rightarrow> (Some e, s1)
      | Inr cp \<Rightarrow>
     let s2 = s1\<lparr>cityPopulation := or_else cp (JStr POPULATION_UNKNOWN_B)\<rparr> in
     (case get_prop result ''bars'' of
        Inl e \<Rightarrow> (Some e, s2)
      | Inr bv \<Rightarrow>
     (case elements bv of
        Inl e \<Rightarrow> (Some e, s2)
      | Inr bars \<Rightarrow>
     let s3 = s2\<lparr>businesses := mkBusinesses ids bars\<rparr> in
     (case get_prop result ''districts'' of
        Inl e \<Rightarrow> (Some e, s3)
      | Inr dv \<Rightarrow>
     (case elements dv of
        Inl e \<Rightarrow> (Some e, s3)
      | Inr ds \<Rightarrow>
     let s4 = s3\<lparr>districts := mkDistricts ids (length bars) ds\<rparr>;
         s5 = s4\<lparr>selectedPoint := Some (JObj
                ([(''name'', or_else cn (JStr placeName)), (''lat'', JNum la), (''lng'', JNum lo)]
                 @ (case cp of Some p \<Rightarrow> [(''population'', p)] | None \<Rightarrow> [])
                 @ [(''type'', JStr ''city'')]))\<rparr>
     in (None, s5)))))))"

text \<open>
  What the external call of a discovery or geocode request comes back with, as far as the
  code looks at it: the call is rejected; the response has no text (\<open>response.text\<close> is
  \<open>undefined\<close> or empty), so that the fallback literal is parsed; the text is not JSON;
  or the text parses to a value.
\<close>

datatype reply = Failed | NoText | Unparseable | Parsed json

text \<open>
  \<open>JSON.parse(response.text || '{"bars":[], "districts": []}')\<close> (lines 172 and 660) and
  \<open>JSON.parse(response.text || '{}')\<close> (line 726).
\<close>

fun parse_city :: "reply \<Rightarrow> error + json" where
  "parse_city Failed = Inl CallRejected"
| "parse_city NoText = Inr (JObj [(''bars'', JArr []), (''districts'', JArr [])])"
| "parse_city Unparseable = Inl SyntaxError"
| "parse_city (Parsed v) = Inr v"

fun parse_geo :: "reply \<Rightarrow> error + json" where
  "parse_geo Failed = Inl CallRejected"
| "parse_geo NoText = Inr (JObj [])"
| "parse_geo Unparseable = Inl SyntaxError"
| "parse_geo (Parsed v) = Inr v"

text \<open>
  \<open>fetchCityData\<close> of variant A (lines 162--183), from its call to the end of its
  \<open>finally\<close> block, for a given outcome of the external call. All statements are inside
  the \<open>try\<close>; an error is logged and the statements before it keep their effect.
\<close>

definition fetchCityData_A :: "(nat \<Rightarrow> string) \<Rightarrow> reply \<Rightarrow> string \<Rightarrow> session \<Rightarrow> session" where
  "fetchCityData_A ids r placeName s =
     (let s0 = s\<lparr>isLoading := True\<rparr>;
          s' =
     (case parse_city r of
        Inl e \<Rightarrow> s0
      | Inr result \<Rightarrow>
     (case get_prop result ''cityName'' of
        Inl e \<Rightarrow> s0
      | Inr cn \<Rightarrow>
     let s1 = s0\<lparr>cityName := or_else cn (JStr placeName)\<rparr> in
     (case get_prop result ''cityPopulation'' of
        Inl e \<Rightarrow> s1
      | Inr cp \<Rightarrow>
     let s2 = s1\<lparr>cityPopulation := or_else cp (JStr POPULATION_UNKNOWN_A)\<rparr> in
     (case get_prop result ''bars'' of
        Inl e \<Rightarrow> s2
      | Inr bv \<Rightarrow>
     (case elements bv of
        Inl e \<Rightarrow> s2
      | Inr bars \<Rightarrow>
     let s3 = s2\<lparr>businesses := mkBusinesses ids bars\<rparr> in
     (case get_prop result ''districts'' of
        Inl e \<Rightarrow> s3
      | Inr dv \<Rightarrow>
     (case elements dv of
        Inl e \<Rightarrow> s3
      | Inr ds \<Rightarrow> s3\<lparr>districts := mkDistricts ids (length bars) ds\<rparr>)))))))
      in s'\<lparr>isLoading := False\<rparr>)"

section \<open>The cache and the asynchronous calls of variant B\<close>

text \<open>
  An \<open>async\<close> function runs up to its \<open>await\<close>, and its continuation runs when the
  awaited external call settles; other handlers can run in between. Each such function
  is therefore embedded in two parts, \<open>_start\<close> and \<open>_resume\<close>. The world is the session
  together with the module-level \<open>searchCache\<close> (line 505), the external calls in flight
  (each with what its continuation closes over: for a geocoding call the \<open>query\<close> and
  the \<open>cacheKey\<close> of lines 705 and 708), the log of all external calls
  issued so far (a call is named by its position in the log), and the log of the errors
  that left an \<open>async\<close> function whose promise nobody awaits.
\<close>

datatype call = GeoCall string string | CityCall real real string

record world =
  sess :: session
  searchCache :: "string \<Rightarrow> json option"
  inFlight :: "(nat \<times> call) list"
  calls :: "call list"
  unhandled :: "error list"

definition issue :: "call \<Rightarrow> world \<Rightarrow> world" where
  "issue c w = w\<lparr>inFlight := inFlight w @ [(length (calls w), c)], calls := calls w @ [c]\<rparr>"

text \<open>The key of line 643: \<open>`${lat.toFixed(4)},${lng.toFixed(4)}`\<close>.\<close>

definition cacheKey :: "real \<Rightarrow> real \<Rightarrow> string" where
  "cacheKey la lo = toFixed 4 la @ '','' @ toFixed 4 lo"

text \<open>
  \<open>fetchCityData\<close> of variant B (lines 642--668). On a cache hit \<open>applyCityData\<close> runs
  outside any \<open>try\<close>: an error it throws rejects the promise of \<open>fetchCityData\<close>, which
  no caller awaits.
\<close>

definition fetchCityData_start ::
  "(nat \<Rightarrow> string) \<Rightarrow> real \<Rightarrow> real \<Rightarrow> string \<Rightarrow> world \<Rightarrow> world" where
  "fetchCityData_start ids la lo placeName w =
     (case searchCache w (cacheKey la lo) of
        Some cached \<Rightarrow>
          (case applyCityData ids cached la lo placeName (sess w) of
             (None, s') \<Rightarrow> w\<lparr>sess := s'\<rparr>
           | (Some e, s') \<Rightarrow> w\<lparr>sess := s', unhandled := unhandled w @ [e]\<rparr>)
      | None \<Rightarrow> issue (CityCall la lo placeName) (w\<lparr>sess := (sess w)\<lparr>isLoading := True\<rparr>\<rparr>))"

definition fetchCityData_resume ::
  "(nat \<Rightarrow> string) \<Rightarrow> real \<Rightarrow> real \<Rightarrow> string \<Rightarrow> reply \<Rightarrow> world \<Rightarrow> world" where
  "fetchCityData_resume ids la lo placeName r w =
     (let w' =
        (case parse_city r of
           Inl e \<Rightarrow> w
         | Inr result \<Rightarrow>
             let w1 = w\<lparr>searchCache := (searchCache w)(cacheKey la lo \<mapsto> result)\<rparr>
             in w1\<lparr>sess := snd (applyCityData ids result la lo placeName (sess w1))\<rparr>)
      in w'\<lparr>sess := (sess w')\<lparr>isLoading := False\<rparr>\<rparr>)"

text \<open>
  The call \<open>fetchCityData(geo.lat, geo.lng, query)\<close> of lines 712 and 730, not awaited.
  \<open>geo\<close> is any parsed value: when \<open>lat\<close> or \<open>lng\<close> is not a number, \<open>toFixed\<close> at
  line 643 is not a function and the promise of \<open>fetchCityData\<close> is rejected at once.
\<close>

definition call_fetchCityData ::
  "(nat \<Rightarrow> string) \<Rightarrow> json option \<Rightarrow> json option \<Rightarrow> string \<Rightarrow> world \<Rightarrow> world" where
  "call_fetchCityData ids la lo query w =
     (case (la, lo) of
        (Some (JNum a), Some (JNum b)) \<Rightarrow> fetchCityData_start ids a b query w
      | _ \<Rightarrow> w\<lparr>unhandled := unhandled w @ [TypeError]\<rparr>)"

text \<open>
  \<open>performCitySearch\<close> of variant B (lines 704--737). \<open>forcedQuery || citySearchQuery\<close>
  takes the state cell when the argument is missing or empty. \<open>query\<close> and \<open>cacheKey\<close> are
  computed once, before the \<open>await\<close>; the continuation uses the same two values. The
  local \<open>cacheKey\<close> of this function is written \<open>geoKey\<close>, the name \<open>cacheKey\<close> being taken
  by the key of \<open>fetchCityData\<close>.
\<close>

definition performCitySearch_start ::
  "string_methods \<Rightarrow> (nat \<Rightarrow> string) \<Rightarrow> string option \<Rightarrow> world \<Rightarrow> world" where
  "performCitySearch_start sm ids forcedQuery w =
     (let query = trim sm (case forcedQuery of
                             Some q \<Rightarrow> if q \<noteq> [] then q else citySearchQuery (sess w)
                           | None \<Rightarrow> citySearchQuery (sess w))
      in if query = [] then w
         else
           let geoKey = ''geo:'' @ toLowerCase sm query in
           (case searchCache w geoKey of
                 Some geo \<Rightarrow>
                   let w1 = w\<lparr>sess := (sess w)\<lparr>mapCenter := Some geo\<rparr>\<rparr> in
                   (case get_prop geo ''lat'' of
                      Inl e \<Rightarrow> w1\<lparr>unhandled := unhandled w1 @ [e]\<rparr>
                    | Inr la \<Rightarrow>
                   (case get_prop geo ''lng'' of
                      Inl e \<Rightarrow> w1\<lparr>unhandled := unhandled w1 @ [e]\<rparr>
                    | Inr lo \<Rightarrow>
                        let w2 = call_fetchCityData ids la lo query w1
                        in w2\<lparr>sess := (sess w2)\<lparr>showSuggestions := False\<rparr>\<rparr>))
               | None \<Rightarrow>
                   issue (GeoCall query geoKey)
                     (w\<lparr>sess := (sess w)\<lparr>isLoading := True, showSuggestions := False\<rparr>\<rparr>)))"

definition performCitySearch_resume ::
  "(nat \<Rightarrow> string) \<Rightarrow> string \<Rightarrow> string \<Rightarrow> reply \<Rightarrow> world \<Rightarrow> world" where
  "performCitySearch_resume ids query geoKey r w =
     (let w' =
        (case parse_geo r of
           Inl e \<Rightarrow> w
         | Inr geo \<Rightarrow>
        (case get_prop geo ''lat'' of
           Inl e \<Rightarrow> w
         | Inr la \<Rightarrow>
        if \<not> truthy_opt la then w
        else
        (case get_prop geo ''lng'' of
           Inl e \<Rightarrow> w
         | Inr lo \<Rightarrow>
        if \<not> truthy_opt lo then w
        else
          let w1 = w\<lparr>searchCache := (searchCache w)(geoKey \<mapsto> geo)\<rparr>;
              w2 = w1\<lparr>sess := (sess w1)\<lparr>mapCenter := Some geo\<rparr>\<rparr>
          in call_fetchCityData ids la lo query w2)))
      in w'\<lparr>sess := (sess w')\<lparr>isLoading := False\<rparr>\<rparr>)"

text \<open>
  The events of a session of variant B: a search is started (with the argument of
  \<open>performCitySearch\<close>), \<open>fetchCityData\<close> is called directly (lines 589 and 794), or the
  external call with the given number settles. Each event carries the random ids drawn
  while it is handled. A settlement for a call that is not in flight changes nothing.
\<close>

datatype event =
    Search "string option" "nat \<Rightarrow> string"
  | FetchCity real real string "nat \<Rightarrow> string"
  | Settle nat reply "nat \<Rightarrow> string"

fun step :: "string_methods \<Rightarrow> event \<Rightarrow> world \<Rightarrow> world" where
  "step sm (Search forcedQuery ids) w = performCitySearch_start sm ids forcedQuery w"
| "step sm (FetchCity la lo placeName ids) w = fetchCityData_start ids la lo placeName w"
| "step sm (Settle n r ids) w =
     (case map_of (inFlight w) n of
        None \<Rightarrow> w
      | Some c \<Rightarrow>
          let w1 = w\<lparr>inFlight := filter (\<lambda>p. fst p \<noteq> n) (inFlight w)\<rparr> in
          (case c of
             GeoCall query geoKey \<Rightarrow> performCitySearch_resume ids query geoKey r w1
           | CityCall la lo placeName \<Rightarrow> fetchCityData_resume ids la lo placeName r w1))"

fun run :: "string_methods \<Rightarrow> event list \<Rightarrow> world \<Rightarrow> world" where
  "run sm [] w = w"
| "run sm (e # es) w = run sm es (step sm e w)"


definition world_B :: world where
  "world_B = \<lparr>sess = initial_B, searchCache = Map.empty, inFlight = [], calls = [],
     unhandled = []\<rparr>"

text \<open>An id stream for the examples: \<open>p0\<close>, \<open>p1\<close>, ...\<close>

definition sample_ids :: "nat \<Rightarrow> string" where
  "sample_ids k = ''p'' @ string_of_nat k"

section \<open>Number arithmetic\<close>

text \<open>
  A JavaScript Number is an IEEE 754 binary64 value, and \<open>a / b\<close>, \<open>a * b\<close> and
  \<open>a + b\<close> give the binary64 value nearest to the exact result, a tie going to the even
  significand. \<open>double x\<close> is that value for a real \<open>x\<close> that is zero or of a magnitude
  in the normal range (from \<open>2^-1022\<close> up to \<open>2^1024\<close>); subnormal results, overflow,
  NaN and the sign of zero are outside the model. \<open>bits n\<close> is the length of the binary
  numeral of \<open>n\<close>, \<open>exponent x\<close> the integer \<open>e\<close> with \<open>2^e \<le> x < 2^(e+1)\<close> for
  \<open>x > 0\<close>, and a binary64 value with that exponent is a multiple of \<open>2^(e-52)\<close>.
\<close>

fun bits :: "nat \<Rightarrow> nat" where
  "bits n = (if n = 0 then 0 else Suc (bits (n div 2)))"

declare bits.simps [simp del]

definition exponent :: "real \<Rightarrow> int" where
  "exponent x =
     (if 1 \<le> x then int (bits (nat \<lfloor>x\<rfloor>)) - 1 else - int (bits (nat \<lceil>1 / x\<rceil> - 1)))"

definition round_even :: "real \<Rightarrow> int" where
  "round_even r =
     (let f = \<lfloor>r\<rfloor>
      in if r - of_int f < 1 / 2 then f
         else if 1 / 2 < r - of_int f then f + 1
         else if even f then f else f + 1)"

definition double :: "real \<Rightarrow> real" where
  "double x =
     (if x = 0 then 0
      else let e = exponent \<bar>x\<bar> - 52
           in if 0 \<le> e
              then sgn x * (of_int (round_even (\<bar>x\<bar> / 2 ^ nat e)) * 2 ^ nat e)
              else sgn x * (of_int (round_even (\<bar>x\<bar> * 2 ^ nat (- e))) / 2 ^ nat (- e)))"

section \<open>Street routes\<close>

text \<open>
  The routing service's answer as \<open>fetchStreetRoute\<close> reads it (lines 741--745): the
  request or the decoding of its body fails, or the body carries the list \<open>routes\<close>
  (empty when the property is missing), each route with its \<open>distance\<close> in metres, its
  \<open>duration\<close> in seconds and the \<open>[lng, lat]\<close> pairs of \<open>geometry.coordinates\<close>.
\<close>

record OsrmRoute =
  osrm_distance :: real
  osrm_duration :: real
  osrm_coordinates :: "(real \<times> real) list"

datatype route_reply = RouteFailed | RouteData "OsrmRoute list"

text \<open>The object returned at lines 749--754.\<close>

record StreetRoute =
  sr_points :: "(real \<times> real) list"
  sr_distance :: string
  sr_time :: string
  sr_arrivalTime :: string

text \<open>
  The time value of \<open>new Date(v)\<close>, in milliseconds since the epoch: \<open>v\<close> truncated
  towards zero (values beyond the range of \<open>Date\<close> are outside the model).
\<close>

definition Date_value :: "real \<Rightarrow> int" where
  "Date_value v = (if 0 \<le> v then \<lfloor>v\<rfloor> else \<lceil>v\<rceil>)"

text \<open>
  \<open>fetchStreetRoute\<close> of variant B (lines 739--758), from the arrival of the response
  on. \<open>now\<close> is the value of \<open>Date.now()\<close> at line 746, read when the response has been
  decoded. \<open>toLocaleTimeString\<close> stands for
  \<open>date.toLocaleTimeString([], { hour: '2-digit', minute: '2-digit' })\<close> as a function of
  the time value; it depends on the locale and the time zone of the browser. The
  quotients of lines 751 and 752 and the product and the sum of line 746 are Number
  operations. The function returns \<open>null\<close> (\<open>None\<close>) on a failure and when there is no
  first route.
\<close>

definition fetchStreetRoute :: "(int \<Rightarrow> string) \<Rightarrow> int \<Rightarrow> route_reply \<Rightarrow> StreetRoute option" where
  "fetchStreetRoute toLocaleTimeString now r =
     (case r of
        RouteFailed \<Rightarrow> None
      | RouteData [] \<Rightarrow> None
      | RouteData (route # rest) \<Rightarrow>
          let durationSeconds = osrm_duration route;
              arrivalDate = Date_value (double (of_int now + double (durationSeconds * 1000)));
              arrivalTimeStr = toLocaleTimeString arrivalDate
          in Some \<lparr>sr_points = map (\<lambda>(x, y). (y, x)) (osrm_coordinates route),
                   sr_distance = toFixed 1 (double (osrm_distance route / 1000)) @ '' km'',
                   sr_time = string_of_int (Math_round (double (osrm_duration route / 60)))
                             @ '' min'',
                   sr_arrivalTime = arrivalTimeStr\<rparr>)"

section \<open>Example inputs\<close>

text \<open>
  Responses and event sequences used in the examples below: two geocode objects, three
  well-formed discovery payloads, a payload that lacks the \<open>bars\<close> and \<open>districts\<close>
  arrays, two searches whose calls overlap, and a malformed payload that is fetched,
  cached and then served from the cache.
\<close>

definition sobral_geo :: json where
  "sobral_geo = JObj [(''lat'', JNum (- 36861 / 10000)), (''lng'', JNum (- 403481 / 10000))]"

definition ubajara_geo :: json where
  "ubajara_geo = JObj [(''lat'', JNum (- 38539 / 10000)), (''lng'', JNum (- 409212 / 10000))]"

definition sobral_city :: json where
  "sobral_city = JObj [(''cityName'', JStr ''Sobral''),
     (''bars'', JArr [JObj [(''name'', JStr ''Bar A'')]]), (''districts'', JArr [])]"

definition ubajara_city :: json where
  "ubajara_city = JObj [(''cityName'', JStr ''Ubajara''),
     (''bars'', JArr [JObj [(''name'', JStr ''Bar B'')]]), (''districts'', JArr [])]"

definition tiangua_city :: json where
  "tiangua_city = JObj [(''cityName'', JStr ''Tiangua''),
     (''bars'', JArr [JObj [(''name'', JStr ''Joe'')]]), (''districts'', JArr [])]"

definition malformed_city :: json where
  "malformed_city = JObj [(''cityName'', JStr ''Sobral'')]"

definition overlapping_searches :: "event list" where
  "overlapping_searches =
     [Search (Some ''Sobral'') sample_ids, Search (Some ''Ubajara'') sample_ids,
      Settle 0 (Parsed sobral_geo) sample_ids, Settle 1 (Parsed ubajara_geo) sample_ids,
      Settle 3 (Parsed ubajara_city) sample_ids]"

definition malformed_then_cached :: "event list" where
  "malformed_then_cached =
     [FetchCity (- 37317 / 10000) (- 410004 / 10000) ''Tiangua'' sample_ids,
      Settle 0 (Parsed tiangua_city) sample_ids,
      FetchCity (- 36861 / 10000) (- 403481 / 10000) ''Local'' sample_ids,
      Settle 1 (Parsed malformed_city) sample_ids]"

section \<open>Theorems\<close>

subsection \<open>Helper lemmas on status updates\<close>

lemma map_status_absent:
  "i \<notin> b_id ` set bs \<Longrightarrow> map (\<lambda>b. if b_id b = i then b\<lparr>b_status := st\<rparr> else b) bs = bs"
  by (induction bs) auto

lemma map_status_twice:
  "map (\<lambda>b. if b_id b = i then b\<lparr>b_status := st2\<rparr> else b)
     (map (\<lambda>b. if b_id b = i then b\<lparr>b_status := st1\<rparr> else b) bs) =
   map (\<lambda>b. if b_id b = i then b\<lparr>b_status := st2\<rparr> else b) bs"
  by (induction bs) auto

lemma status_of_map_status:
  "map b_status (filter (\<lambda>b. b_id b = i)
     (map (\<lambda>b. if b_id b = i then b\<lparr>b_status := st\<rparr> else b) bs)) =
   replicate (length (filter (\<lambda>b. b_id b = i) bs)) st"
  by (induction bs) auto

lemma map_status_others:
  "filter (\<lambda>b. b_id b \<noteq> i) (map (\<lambda>b. if b_id b = i then b\<lparr>b_status := st\<rparr> else b) bs) =
   filter (\<lambda>b. b_id b \<noteq> i) bs"
  by (induction bs) auto

lemma map_status_ids:
  "map b_id (map (\<lambda>b. if b_id b = i then b\<lparr>b_status := st\<rparr> else b) bs) = map b_id bs"
  by (induction bs) auto

lemma map_status_seeds:
  "map b_seed (map (\<lambda>b. if b_id b = i then b\<lparr>b_status := st\<rparr> else b) bs) = map b_seed bs"
  by (induction bs) auto

subsection \<open>Helper lemmas on strings and on discovery responses\<close>

lemma zeros_numeral: "zeros (numeral k) = CHR ''0'' # zeros (pred_numeral k)"
  by (simp add: numeral_eq_Suc)

lemmas string_of_nat_numeral =
  string_of_nat.simps [of "numeral k" for k] string_of_nat.simps [of 0]
  string_of_nat.simps [of 1] string_of_nat.simps [of "Suc 0"]
  string_of_nat.simps [of "Suc (Suc 0)"] string_of_nat.simps [of "Suc (Suc (Suc 0))"]

lemmas js_eval = toFixed_def pad_def string_of_nat_numeral digit_def cacheKey_def
  ascii_methods_def ascii_toLowerCase_def lower_def ascii_trim_def is_space_def Math_round_def string_of_int_def
  sample_ids_def zeros_numeral

lemmas world_eval = world_B_def initial_B_def fetchCityData_start_def fetchCityData_resume_def
  performCitySearch_start_def performCitySearch_resume_def call_fetchCityData_def issue_def
  applyCityData_def mkBusinesses_def mkDistricts_def or_else_def locationJson_def
  INITIAL_COORDS_def Let_def

lemmas example_defs = sobral_geo_def ubajara_geo_def sobral_city_def ubajara_city_def
  tiangua_city_def malformed_city_def overlapping_searches_def malformed_then_cached_def

lemma get_prop_Inr: "get_prop v k = Inr x \<Longrightarrow> \<exists>y. get_prop v k' = Inr y"
  by (cases v) auto

lemma mkBusinesses_length: "length (mkBusinesses ids bars) = length bars"
  by (simp add: mkBusinesses_def)

lemma mkBusinesses_seeds: "map b_seed (mkBusinesses ids bars) = bars"
proof -
  have "map b_seed (map (\<lambda>(k, b). \<lparr>b_seed = b, b_id = ids k, b_status = pending\<rparr>) (enumerate n xs)) = xs"
    for n xs
    by (induction xs arbitrary: n) simp_all
  then show ?thesis by (simp add: mkBusinesses_def)
qed

lemma mkBusinesses_status:
  "map b_status (mkBusinesses ids bars) = replicate (length bars) pending"
proof -
  have "map b_status (map (\<lambda>(k, b). \<lparr>b_seed = b, b_id = ids k, b_status = pending\<rparr>) (enumerate n xs))
        = replicate (length xs) pending" for n xs
    by (induction xs arbitrary: n) simp_all
  then show ?thesis by (simp add: mkBusinesses_def)
qed

lemma mkBusinesses_ids: "map b_id (mkBusinesses ids bars) = map ids [0..<length bars]"
proof -
  have "map b_id (map (\<lambda>(k, b). \<lparr>b_seed = b, b_id = ids k, b_status = pending\<rparr>) (enumerate n xs))
        = map ids (map fst (enumerate n xs))" for n xs
    by (induction xs arbitrary: n) simp_all
  then show ?thesis by (simp add: mkBusinesses_def)
qed

lemma mkDistricts_length: "length (mkDistricts ids n ds) = length ds"
  by (simp add: mkDistricts_def)

lemma mkDistricts_seeds: "map d_seed (mkDistricts ids n ds) = ds"
proof -
  have "map d_seed (map (\<lambda>(k, d). \<lparr>d_seed = d, d_id = ids k, covered = False\<rparr>) (enumerate n xs)) = xs"
    for n xs
    by (induction xs arbitrary: n) simp_all
  then show ?thesis by (simp add: mkDistricts_def)
qed

lemma mkDistricts_covered:
  "map covered (mkDistricts ids n ds) = replicate (length ds) False"
proof -
  have "map covered (map (\<lambda>(k, d). \<lparr>d_seed = d, d_id = ids k, covered = False\<rparr>) (enumerate n xs))
        = replicate (length xs) False" for n xs
    by (induction xs arbitrary: n) simp_all
  then show ?thesis by (simp add: mkDistricts_def)
qed

lemma mkDistricts_ids: "map d_id (mkDistricts ids n ds) = map ids [n..<n + length ds]"
proof -
  have "map d_id (map (\<lambda>(k, d). \<lparr>d_seed = d, d_id = ids k, covered = False\<rparr>) (enumerate n xs))
        = map ids (map fst (enumerate n xs))" for n xs
    by (induction xs arbitrary: n) simp_all
  then show ?thesis by (simp add: mkDistricts_def)
qed

lemma all_ids:
  "map b_id (mkBusinesses ids bars) @ map d_id (mkDistricts ids (length bars) ds)
   = map ids [0..<length bars + length ds]"
proof -
  have "[0..<length bars + length ds] = [0..<length bars] @ [length bars..<length bars + length ds]"
    by (rule upt_add_eq_append) simp
  then show ?thesis
    by (simp only: mkBusinesses_ids mkDistricts_ids map_append)
qed

lemma applyCityData_wellformed:
  assumes "get_prop result ''cityName'' = Inr cn"
    and "get_prop result ''cityPopulation'' = Inr cp"
    and "get_prop result ''bars'' = Inr (Some (JArr bars))"
    and "get_prop result ''districts'' = Inr (Some (JArr ds))"
  shows "applyCityData ids result la lo placeName s =
      (None, s\<lparr>cityName := or_else cn (JStr placeName),
              cityPopulation := or_else cp (JStr POPULATION_UNKNOWN_B),
              businesses := mkBusinesses ids bars,
              districts := mkDistricts ids (length bars) ds,
              selectedPoint := Some (JObj
                ([(''name'', or_else cn (JStr placeName)), (''lat'', JNum la), (''lng'', JNum lo)]
                 @ (case cp of Some p \<Rightarrow> [(''population'', p)] | None \<Rightarrow> [])
                 @ [(''type'', JStr ''city'')]))\<rparr>)"
  unfolding applyCityData_def by (simp add: assms)

lemma applyCityData_collections:
  assumes "get_prop result ''bars'' = Inr (Some (JArr bars))"
    and "get_prop result ''districts'' = Inr (Some (JArr ds))"
  shows "fst (applyCityData ids result la lo placeName s) = None
    \<and> businesses (snd (applyCityData ids result la lo placeName s)) = mkBusinesses ids bars
    \<and> districts (snd (applyCityData ids result la lo placeName s)) =
        mkDistricts ids (length bars) ds"
proof -
  obtain cn where cn: "get_prop result ''cityName'' = Inr cn"
    using get_prop_Inr [OF assms(1)] by blast
  obtain cp where cp: "get_prop result ''cityPopulation'' = Inr cp"
    using get_prop_Inr [OF assms(1)] by blast
  show ?thesis
    by (simp add: applyCityData_wellformed [OF cn cp assms])
qed

lemma fetchCityData_A_wellformed:
  assumes "get_prop result ''cityName'' = Inr cn"
    and "get_prop result ''cityPopulation'' = Inr cp"
    and "get_prop result ''bars'' = Inr (Some (JArr bars))"
    and "get_prop result ''districts'' = Inr (Some (JArr ds))"
  shows "fetchCityData_A ids (Parsed result) placeName s =
      s\<lparr>isLoading := False, cityName := or_else cn (JStr placeName),
        cityPopulation := or_else cp (JStr POPULATION_UNKNOWN_A),
        businesses := mkBusinesses ids bars,
        districts := mkDistricts ids (length bars) ds\<rparr>"
  unfolding fetchCityData_A_def by (simp add: assms)

lemma fetchCityData_A_collections:
  assumes "get_prop result ''bars'' = Inr (Some (JArr bars))"
    and "get_prop result ''districts'' = Inr (Some (JArr ds))"
  shows "businesses (fetchCityData_A ids (Parsed result) placeName s) = mkBusinesses ids bars
    \<and> districts (fetchCityData_A ids (Parsed result) placeName s) =
        mkDistricts ids (length bars) ds"
proof -
  obtain cn where cn: "get_prop result ''cityName'' = Inr cn"
    using get_prop_Inr [OF assms(1)] by blast
  obtain cp where cp: "get_prop result ''cityPopulation'' = Inr cp"
    using get_prop_Inr [OF assms(1)] by blast
  show ?thesis
    by (simp add: fetchCityData_A_wellformed [OF cn cp assms])
qed

subsection \<open>Status reports\<close>

text \<open>
  C5. For every id and status, \<open>handleStatusUpdate\<close> overwrites the status of the business
  points with that id, the last write winning (a second report replaces the first, so
  \<open>success\<close> followed by \<open>failure\<close> leaves \<open>failure\<close>); ids, seeds and the entries with
  another id stay as they are; when no business point has the id the session is unchanged;
  the handler has no failing branch, and the active route and the tracking flag are never
  touched.
\<close>

theorem handleStatusUpdate_last_write_wins:
  "status_of i (handleStatusUpdate i st2 (handleStatusUpdate i st1 s)) =
     replicate (length (status_of i s)) st2
   \<and> handleStatusUpdate i st2 (handleStatusUpdate i st1 s) = handleStatusUpdate i st2 s
   \<and> filter (\<lambda>b. b_id b \<noteq> i) (businesses (handleStatusUpdate i st s)) =
       filter (\<lambda>b. b_id b \<noteq> i) (businesses s)
   \<and> map b_id (businesses (handleStatusUpdate i st s)) = map b_id (businesses s)
   \<and> map b_seed (businesses (handleStatusUpdate i st s)) = map b_seed (businesses s)
   \<and> (i \<notin> b_id ` set (businesses s) \<longrightarrow> handleStatusUpdate i st s = s)
   \<and> activeNavigation (handleStatusUpdate i st s) = activeNavigation s
   \<and> isNavigating (handleStatusUpdate i st s) = isNavigating s"
proof -
  have twice: "handleStatusUpdate i st2 (handleStatusUpdate i st1 s) = handleStatusUpdate i st2 s"
    by (simp add: handleStatusUpdate_def map_status_twice del: map_map)
  have "status_of i (handleStatusUpdate i st2 s) = replicate (length (status_of i s)) st2"
    by (simp add: status_of_def handleStatusUpdate_def status_of_map_status)
  with twice have "status_of i (handleStatusUpdate i st2 (handleStatusUpdate i st1 s)) =
          replicate (length (status_of i s)) st2"
    by simp
  moreover have "i \<notin> b_id ` set (businesses s) \<longrightarrow> handleStatusUpdate i st s = s"
    by (simp add: handleStatusUpdate_def map_status_absent)
  ultimately show ?thesis
    using twice
    by (simp add: handleStatusUpdate_def map_status_others map_status_ids map_status_seeds)
qed

theorem handleStatusUpdate_last_write_wins_witness:
  "status_of ''k3f9'' (handleStatusUpdate ''k3f9'' failure (handleStatusUpdate ''k3f9'' success
      (initial_B\<lparr>businesses := [\<lparr>b_seed = JObj [(''name'', JStr ''Joe'')], b_id = ''k3f9'',
                                   b_status = pending\<rparr>]\<rparr>))) = [failure]
   \<and> ''zz'' \<notin> b_id ` set (businesses (initial_B\<lparr>businesses :=
         [\<lparr>b_seed = JObj [(''name'', JStr ''Joe'')], b_id = ''k3f9'', b_status = pending\<rparr>]\<rparr>))
   \<and> handleStatusUpdate ''zz'' failure
        (initial_B\<lparr>businesses := [\<lparr>b_seed = JObj [(''name'', JStr ''Joe'')], b_id = ''k3f9'',
                                    b_status = pending\<rparr>]\<rparr>)
       = initial_B\<lparr>businesses := [\<lparr>b_seed = JObj [(''name'', JStr ''Joe'')], b_id = ''k3f9'',
                                    b_status = pending\<rparr>]\<rparr>"
  using handleStatusUpdate_last_write_wins
    [of "''k3f9''" failure success
        "initial_B\<lparr>businesses := [\<lparr>b_seed = JObj [(''name'', JStr ''Joe'')], b_id = ''k3f9'',
                                    b_status = pending\<rparr>]\<rparr>" failure]
    handleStatusUpdate_last_write_wins
    [of "''zz''" failure success
        "initial_B\<lparr>businesses := [\<lparr>b_seed = JObj [(''name'', JStr ''Joe'')], b_id = ''k3f9'',
                                    b_status = pending\<rparr>]\<rparr>" failure]
  by (simp add: status_of_def handleStatusUpdate_def initial_B_def)

subsection \<open>The tracking toggle\<close>

text \<open>
  C6, as the claim states it, fails on variant A: there the toggle pressed while tracking
  is on (\<open>stopTracking\<close>) empties the recorded track.
\<close>

theorem toggleNavigation_A_stop_clears_track:
  "trackingPath (toggleNavigation_A (initial_A\<lparr>isNavigating := True,
      trackingPath := [\<lparr>timestamp = 1000, location = \<lparr>lat = 1, lng = 2\<rparr>\<rparr>]\<rparr>))
   \<noteq> trackingPath (initial_A\<lparr>isNavigating := True,
      trackingPath := [\<lparr>timestamp = 1000, location = \<lparr>lat = 1, lng = 2\<rparr>\<rparr>]\<rparr>)"
  by (simp add: toggleNavigation_A_def initial_A_def initial_B_def)

text \<open>
  C6, amended. In variant B (lines 629--640) starting tracking empties the recorded track
  and stopping keeps it; in variant A (lines 150--160) stopping empties the track and
  starting keeps it. In both variants the toggle flips the tracking flag and leaves the
  business points and the districts as they are.
\<close>

theorem toggleNavigation_track:
  "(\<not> isNavigating s \<longrightarrow> trackingPath (toggleNavigation_B s) = [])
   \<and> (isNavigating s \<longrightarrow> trackingPath (toggleNavigation_B s) = trackingPath s)
   \<and> (isNavigating s \<longrightarrow> trackingPath (toggleNavigation_A s) = [])
   \<and> (\<not> isNavigating s \<longrightarrow> trackingPath (toggleNavigation_A s) = trackingPath s)
   \<and> isNavigating (toggleNavigation_B s) = (\<not> isNavigating s)
   \<and> isNavigating (toggleNavigation_A s) = (\<not> isNavigating s)
   \<and> businesses (toggleNavigation_B s) = businesses s
   \<and> districts (toggleNavigation_B s) = districts s
   \<and> businesses (toggleNavigation_A s) = businesses s
   \<and> districts (toggleNavigation_A s) = districts s"
  by (simp add: toggleNavigation_A_def toggleNavigation_B_def)

theorem toggleNavigation_track_witness:
  "isNavigating (initial_B\<lparr>isNavigating := True,
      trackingPath := [\<lparr>timestamp = 1000, location = \<lparr>lat = 1, lng = 2\<rparr>\<rparr>]\<rparr>)
   \<and> trackingPath (toggleNavigation_B (initial_B\<lparr>isNavigating := True,
      trackingPath := [\<lparr>timestamp = 1000, location = \<lparr>lat = 1, lng = 2\<rparr>\<rparr>]\<rparr>))
      = [\<lparr>timestamp = 1000, location = \<lparr>lat = 1, lng = 2\<rparr>\<rparr>]
   \<and> trackingPath (toggleNavigation_A (initial_B\<lparr>isNavigating := True,
      trackingPath := [\<lparr>timestamp = 1000, location = \<lparr>lat = 1, lng = 2\<rparr>\<rparr>]\<rparr>)) = []
   \<and> \<not> isNavigating (initial_B\<lparr>
      trackingPath := [\<lparr>timestamp = 1000, location = \<lparr>lat = 1, lng = 2\<rparr>\<rparr>]\<rparr>)
   \<and> trackingPath (toggleNavigation_B (initial_B\<lparr>
      trackingPath := [\<lparr>timestamp = 1000, location = \<lparr>lat = 1, lng = 2\<rparr>\<rparr>]\<rparr>)) = []
   \<and> trackingPath (toggleNavigation_A (initial_B\<lparr>
      trackingPath := [\<lparr>timestamp = 1000, location = \<lparr>lat = 1, lng = 2\<rparr>\<rparr>]\<rparr>))
      = [\<lparr>timestamp = 1000, location = \<lparr>lat = 1, lng = 2\<rparr>\<rparr>]"
  using toggleNavigation_track
    [of "initial_B\<lparr>isNavigating := True,
      trackingPath := [\<lparr>timestamp = 1000, location = \<lparr>lat = 1, lng = 2\<rparr>\<rparr>]\<rparr>"]
    toggleNavigation_track
    [of "initial_B\<lparr>trackingPath := [\<lparr>timestamp = 1000, location = \<lparr>lat = 1, lng = 2\<rparr>\<rparr>]\<rparr>"]
  by (simp add: initial_B_def)

subsection \<open>Location updates\<close>

lemma spaced_snoc:
  "spaced (xs @ [p]) \<longleftrightarrow> spaced xs \<and> (xs = [] \<or> far (location (last xs)) (location p))"
  by (induction xs rule: spaced.induct) auto

lemma record_point_cases:
  "record_point now loc prev = prev \<or> record_point now loc prev = prev @ [point (now, loc)]"
  by (simp add: record_point_def point_def)

lemma record_point_spaced: "spaced prev \<Longrightarrow> spaced (record_point now loc prev)"
  by (auto simp: record_point_def spaced_snoc)

lemma track_B_cases:
  "trackingPath (handleLocationUpdate_B now loc s) = trackingPath s \<or>
   trackingPath (handleLocationUpdate_B now loc s) = trackingPath s @ [point (now, loc)]"
  using record_point_cases [of now loc "trackingPath s"]
  by (auto simp: handleLocationUpdate_B_def Let_def split: option.splits)

lemma track_B_spaced:
  "spaced (trackingPath s) \<Longrightarrow> spaced (trackingPath (handleLocationUpdate_B now loc s))"
  by (auto simp: handleLocationUpdate_B_def Let_def record_point_spaced split: option.splits)

lemma sorted_drop_middle:
  "sorted (xs @ (t # ts)) \<Longrightarrow> sorted (xs @ ts)" for xs :: "int list"
  by (auto simp: sorted_append)

lemma updates_B_track:
  "spaced (trackingPath s) \<Longrightarrow> sorted (map timestamp (trackingPath s) @ map fst es) \<Longrightarrow>
   prefix (trackingPath s) (trackingPath (updates_B es s))
   \<and> sorted (map timestamp (trackingPath (updates_B es s)))
   \<and> spaced (trackingPath (updates_B es s))
   \<and> length (trackingPath (updates_B es s)) \<le> length (trackingPath s) + length es"
proof (induction es arbitrary: s)
  case Nil
  then show ?case by simp
next
  case (Cons e es)
  obtain now loc where e: "e = (now, loc)" by (cases e)
  let ?s = "handleLocationUpdate_B now loc s"
  have sp: "spaced (trackingPath ?s)" using Cons.prems(1) by (rule track_B_spaced)
  have pre: "prefix (trackingPath s) (trackingPath ?s)"
    using track_B_cases [of now loc s] by auto
  have len: "length (trackingPath ?s) \<le> length (trackingPath s) + 1"
    using track_B_cases [of now loc s] by auto
  have so: "sorted (map timestamp (trackingPath ?s) @ map fst es)"
    using track_B_cases [of now loc s] Cons.prems(2) e
    by (auto simp: point_def dest: sorted_drop_middle)
  from Cons.IH [OF sp so] pre len show ?case
    by (auto simp: e intro: prefix_order.trans)
qed

lemma two_close_updates_B:
  "\<not> far l1 l2 \<Longrightarrow>
   length (trackingPath (updates_B [(t1, l1), (t2, l2)] s)) \<le> length (trackingPath s) + 1"
  by (auto simp: handleLocationUpdate_B_def Let_def record_point_def split: option.splits)

lemma navigating_A: "isNavigating (handleLocationUpdate_A now loc s) = isNavigating s"
  by (simp add: handleLocationUpdate_A_def Let_def split: option.splits)

lemma track_A:
  "trackingPath (handleLocationUpdate_A now loc s) =
     (if isNavigating s then trackingPath s @ [point (now, loc)] else trackingPath s)"
  by (simp add: handleLocationUpdate_A_def Let_def point_def split: option.splits)

lemma updates_A_track:
  "isNavigating s \<Longrightarrow> trackingPath (updates_A es s) = trackingPath s @ map point es"
proof (induction es arbitrary: s)
  case Nil
  then show ?case by simp
next
  case (Cons e es)
  obtain now loc where e: "e = (now, loc)" by (cases e)
  show ?case using Cons.IH [of "handleLocationUpdate_A now loc s"] Cons.prems
    by (simp add: e navigating_A track_A)
qed

lemma track_B_exact:
  "trackingPath (handleLocationUpdate_B now loc s) =
     (case currentLocation s of
        None \<Rightarrow> trackingPath s
      | Some cur \<Rightarrow>
          if moved cur loc \<and>
             (trackingPath s = [] \<or> far (location (last (trackingPath s))) loc)
          then trackingPath s @ [point (now, loc)]
          else trackingPath s)"
  by (simp add: handleLocationUpdate_B_def Let_def record_point_def point_def
      split: option.splits)

lemma current_B: "currentLocation (handleLocationUpdate_B now loc s) = Some loc"
  by (simp add: handleLocationUpdate_B_def Let_def split: option.splits)

lemma updates_B_subseq:
  "\<exists>ps. subseq ps es \<and> trackingPath (updates_B es s) = trackingPath s @ map point ps"
proof (induction es arbitrary: s)
  case Nil
  then show ?case by simp
next
  case (Cons e es)
  obtain now loc where e: "e = (now, loc)" by (cases e)
  let ?s = "handleLocationUpdate_B now loc s"
  obtain ps where ps: "subseq ps es"
    "trackingPath (updates_B es ?s) = trackingPath ?s @ map point ps"
    using Cons.IH [of ?s] by blast
  from track_B_cases [of now loc s] show ?case
  proof
    assume "trackingPath ?s = trackingPath s"
    with ps have "subseq ps (e # es)"
      "trackingPath (updates_B (e # es) s) = trackingPath s @ map point ps"
      by (auto simp: e intro: list_emb_Cons)
    then show ?thesis by blast
  next
    assume "trackingPath ?s = trackingPath s @ [point (now, loc)]"
    with ps have "subseq (e # ps) (e # es)"
      "trackingPath (updates_B (e # es) s) = trackingPath s @ map point (e # ps)"
      by (simp_all add: e)
    then show ?thesis by blast
  qed
qed

lemma fresh_close_updates_B:
  "currentLocation s = None \<Longrightarrow> \<not> moved l1 l2 \<Longrightarrow>
   trackingPath (updates_B [(t1, l1), (t2, l2)] s) = trackingPath s"
  by (simp add: handleLocationUpdate_B_def Let_def)

text \<open>
  C3, as the claim states it, fails on both variants. In a session of variant B whose
  tracking is on and whose location is still unknown, two updates one millionth of a
  degree apart append no point at all; in variant A the same two updates append two
  points, less than the threshold apart.
\<close>

theorem close_updates_not_one_point:
  "trackingPath (updates_B
      [(1000, \<lparr>lat = 0, lng = 0\<rparr>), (2000, \<lparr>lat = 1 / 1000000, lng = 0\<rparr>)]
      (initial_B\<lparr>isNavigating := True\<rparr>)) = []
   \<and> trackingPath (updates_A
      [(1000, \<lparr>lat = 0, lng = 0\<rparr>), (2000, \<lparr>lat = 1 / 1000000, lng = 0\<rparr>)]
      (initial_A\<lparr>isNavigating := True\<rparr>))
     = [\<lparr>timestamp = 1000, location = \<lparr>lat = 0, lng = 0\<rparr>\<rparr>,
        \<lparr>timestamp = 2000, location = \<lparr>lat = 1 / 1000000, lng = 0\<rparr>\<rparr>]
   \<and> \<not> far \<lparr>lat = 0, lng = 0\<rparr> \<lparr>lat = 1 / 1000000, lng = 0\<rparr>"
  by (simp add: handleLocationUpdate_B_def handleLocationUpdate_A_def initial_A_def
      initial_B_def Let_def moved_def far_def)

text \<open>
  C3, amended. In variant B, for every sequence of location updates starting from a track
  whose consecutive points are more than 0.00005 apart (in latitude or in longitude): the
  track only grows at its end, by the points of some of the updates in their order, at
  most one per update; its timestamps are the clock readings of the appends, hence
  non-decreasing whenever the clock readings are; every two consecutive recorded
  coordinates are more than 0.00005 apart. A single update appends its point exactly when
  a previous location is known, the new sample is more than 0.000005 away from it, and the
  track is empty or its last point is more than 0.00005 away from the new sample;
  otherwise the track is left as it is. So two successive updates that are not more than
  0.00005 apart append at most one point, and none when no location was known before the
  first and the second is within 0.000005 of the first. In variant A there is no
  displacement filter: while tracking is on every update appends its point.
\<close>

theorem trackingPath_updates:
  assumes "spaced (trackingPath s)"
    and "sorted (map timestamp (trackingPath s) @ map fst es)"
  shows "prefix (trackingPath s) (trackingPath (updates_B es s))
   \<and> length (trackingPath (updates_B es s)) \<le> length (trackingPath s) + length es
   \<and> (\<exists>ps. subseq ps es \<and> trackingPath (updates_B es s) = trackingPath s @ map point ps)
   \<and> sorted (map timestamp (trackingPath (updates_B es s)))
   \<and> spaced (trackingPath (updates_B es s))
   \<and> trackingPath (handleLocationUpdate_B now loc s) =
       (case currentLocation s of
          None \<Rightarrow> trackingPath s
        | Some cur \<Rightarrow>
            if moved cur loc \<and>
               (trackingPath s = [] \<or> far (location (last (trackingPath s))) loc)
            then trackingPath s @ [point (now, loc)]
            else trackingPath s)
   \<and> currentLocation (handleLocationUpdate_B now loc s) = Some loc
   \<and> (\<not> far l1 l2 \<longrightarrow>
        length (trackingPath (updates_B [(t1, l1), (t2, l2)] s)) \<le> length (trackingPath s) + 1)
   \<and> (currentLocation s = None \<and> \<not> moved l1 l2 \<longrightarrow>
        trackingPath (updates_B [(t1, l1), (t2, l2)] s) = trackingPath s)
   \<and> (isNavigating s \<longrightarrow> trackingPath (updates_A es s) = trackingPath s @ map point es)"
  using updates_B_track [OF assms] two_close_updates_B [of l1 l2 t1 t2 s]
    updates_A_track [of s es] updates_B_subseq [of es s] track_B_exact [of now loc s]
    current_B [of now loc s] fresh_close_updates_B [of s l1 l2 t1 t2]
  by simp

theorem trackingPath_updates_witness:
  "spaced (trackingPath (initial_B\<lparr>currentLocation := Some \<lparr>lat = 0, lng = 0\<rparr>,
                                   isNavigating := True\<rparr>))
   \<and> sorted (map timestamp (trackingPath (initial_B\<lparr>currentLocation := Some \<lparr>lat = 0, lng = 0\<rparr>,
                                   isNavigating := True\<rparr>))
        @ map fst [(1000, \<lparr>lat = 1 / 10000, lng = 0\<rparr>), (2000, \<lparr>lat = 12 / 100000, lng = 0\<rparr>),
                   (3000, \<lparr>lat = 3 / 10000, lng = 0\<rparr>)])
   \<and> trackingPath (updates_B
        [(1000, \<lparr>lat = 1 / 10000, lng = 0\<rparr>), (2000, \<lparr>lat = 12 / 100000, lng = 0\<rparr>),
         (3000, \<lparr>lat = 3 / 10000, lng = 0\<rparr>)]
        (initial_B\<lparr>currentLocation := Some \<lparr>lat = 0, lng = 0\<rparr>, isNavigating := True\<rparr>))
      = [\<lparr>timestamp = 1000, location = \<lparr>lat = 1 / 10000, lng = 0\<rparr>\<rparr>,
         \<lparr>timestamp = 3000, location = \<lparr>lat = 3 / 10000, lng = 0\<rparr>\<rparr>]
   \<and> spaced (trackingPath (updates_B
        [(1000, \<lparr>lat = 1 / 10000, lng = 0\<rparr>), (2000, \<lparr>lat = 12 / 100000, lng = 0\<rparr>),
         (3000, \<lparr>lat = 3 / 10000, lng = 0\<rparr>)]
        (initial_B\<lparr>currentLocation := Some \<lparr>lat = 0, lng = 0\<rparr>, isNavigating := True\<rparr>)))
   \<and> trackingPath (handleLocationUpdate_B 500 \<lparr>lat = 1 / 1000000, lng = 0\<rparr>
        (initial_B\<lparr>currentLocation := Some \<lparr>lat = 0, lng = 0\<rparr>, isNavigating := True\<rparr>)) = []
   \<and> \<not> far \<lparr>lat = 1 / 10000, lng = 0\<rparr> \<lparr>lat = 12 / 100000, lng = 0\<rparr>
   \<and> length (trackingPath (updates_B
        [(1000, \<lparr>lat = 1 / 10000, lng = 0\<rparr>), (2000, \<lparr>lat = 12 / 100000, lng = 0\<rparr>)]
        (initial_B\<lparr>currentLocation := Some \<lparr>lat = 0, lng = 0\<rparr>, isNavigating := True\<rparr>))) = 1
   \<and> isNavigating (initial_B\<lparr>currentLocation := Some \<lparr>lat = 0, lng = 0\<rparr>, isNavigating := True\<rparr>)
   \<and> length (trackingPath (updates_A
        [(1000, \<lparr>lat = 1 / 10000, lng = 0\<rparr>), (2000, \<lparr>lat = 12 / 100000, lng = 0\<rparr>),
         (3000, \<lparr>lat = 3 / 10000, lng = 0\<rparr>)]
        (initial_B\<lparr>currentLocation := Some \<lparr>lat = 0, lng = 0\<rparr>, isNavigating := True\<rparr>))) = 3
   \<and> spaced (trackingPath (initial_B\<lparr>isNavigating := True\<rparr>))
   \<and> sorted (map timestamp (trackingPath (initial_B\<lparr>isNavigating := True\<rparr>))
        @ map fst ([] :: (int \<times> Location) list))
   \<and> currentLocation (initial_B\<lparr>isNavigating := True\<rparr>) = None
   \<and> \<not> moved \<lparr>lat = 0, lng = 0\<rparr> \<lparr>lat = 1 / 1000000, lng = 0\<rparr>
   \<and> trackingPath (updates_B
        [(1000, \<lparr>lat = 0, lng = 0\<rparr>), (2000, \<lparr>lat = 1 / 1000000, lng = 0\<rparr>)]
        (initial_B\<lparr>isNavigating := True\<rparr>)) = []"
proof -
  let ?s = "initial_B\<lparr>currentLocation := Some \<lparr>lat = 0, lng = 0\<rparr>, isNavigating := True\<rparr>"
  let ?es = "[(1000, \<lparr>lat = 1 / 10000, lng = 0\<rparr>), (2000, \<lparr>lat = 12 / 100000, lng = 0\<rparr>),
              (3000::int, \<lparr>lat = 3 / 10000, lng = 0::real\<rparr>)]"
  let ?f = "initial_B\<lparr>isNavigating := True\<rparr>"
  have h1: "spaced (trackingPath ?s)"
    by (simp add: initial_B_def)
  have h2: "sorted (map timestamp (trackingPath ?s) @ map fst ?es)"
    by (simp add: initial_B_def)
  have g1: "spaced (trackingPath ?f)"
    by (simp add: initial_B_def)
  have g2: "sorted (map timestamp (trackingPath ?f) @ map fst ([] :: (int \<times> Location) list))"
    by (simp add: initial_B_def)
  show ?thesis
    using h1 h2 g1 g2
      trackingPath_updates [OF h1 h2, of 500 "\<lparr>lat = 1 / 1000000, lng = 0\<rparr>"
        "\<lparr>lat = 1 / 10000, lng = 0\<rparr>" "\<lparr>lat = 12 / 100000, lng = 0\<rparr>" 1000 2000]
      trackingPath_updates [OF g1 g2, of 500 "\<lparr>lat = 1 / 1000000, lng = 0\<rparr>"
        "\<lparr>lat = 0, lng = 0\<rparr>" "\<lparr>lat = 1 / 1000000, lng = 0\<rparr>" 1000 2000]
    by (simp add: handleLocationUpdate_B_def handleLocationUpdate_A_def initial_B_def Let_def
        moved_def far_def record_point_def point_def)
qed

text \<open>
  C7, as the claim states it, fails. In variant B an update one millionth of a degree
  east of the known location leaves the heading at 0 although the bearing of that move is
  90 degrees, and in both variants the first update of a session leaves the heading as
  it is; in variant B, moreover, an update one degree away from the known location
  appends a track point while tracking is off.
\<close>

theorem handleLocationUpdate_heading_not_always_updated:
  "carRotation (handleLocationUpdate_B 1000 \<lparr>lat = 0, lng = 1 / 1000000\<rparr>
        (initial_B\<lparr>currentLocation := Some \<lparr>lat = 0, lng = 0\<rparr>\<rparr>)) = 0
   \<and> heading \<lparr>lat = 0, lng = 0\<rparr> \<lparr>lat = 0, lng = 1 / 1000000\<rparr> = 90
   \<and> carRotation (handleLocationUpdate_A 1000 \<lparr>lat = 0, lng = 1\<rparr> initial_A) = 0
   \<and> carRotation (handleLocationUpdate_B 1000 \<lparr>lat = 0, lng = 1\<rparr> initial_B) = 0
   \<and> \<not> isNavigating (initial_B\<lparr>currentLocation := Some \<lparr>lat = 0, lng = 0\<rparr>\<rparr>)
   \<and> trackingPath (handleLocationUpdate_B 1000 \<lparr>lat = 1, lng = 0\<rparr>
        (initial_B\<lparr>currentLocation := Some \<lparr>lat = 0, lng = 0\<rparr>\<rparr>))
      = [\<lparr>timestamp = 1000, location = \<lparr>lat = 1, lng = 0\<rparr>\<rparr>]"
  by (simp add: handleLocationUpdate_B_def handleLocationUpdate_A_def initial_A_def
      initial_B_def Let_def moved_def record_point_def heading_def atan2_def)

text \<open>
  C7, amended. For every coordinate the handler sets \<open>currentLocation\<close> to it and has no
  failing branch. The heading is recomputed only when a previous location is known, and
  in variant B only when the new sample is more than 0.000005 away from the previous one
  in latitude or in longitude. In variant A a track point is appended exactly when
  tracking is on, and none when it is off. In variant B an update leaves the track as it
  is or appends the new point to it, and leaves it as it is when no previous location is
  known.
\<close>

theorem handleLocationUpdate_effect:
  "currentLocation (handleLocationUpdate_A now loc s) = Some loc
   \<and> currentLocation (handleLocationUpdate_B now loc s) = Some loc
   \<and> carRotation (handleLocationUpdate_A now loc s) =
       (case currentLocation s of None \<Rightarrow> carRotation s | Some cur \<Rightarrow> heading cur loc)
   \<and> carRotation (handleLocationUpdate_B now loc s) =
       (case currentLocation s of None \<Rightarrow> carRotation s
        | Some cur \<Rightarrow> if moved cur loc then heading cur loc else carRotation s)
   \<and> trackingPath (handleLocationUpdate_A now loc s) =
       (if isNavigating s then trackingPath s @ [point (now, loc)] else trackingPath s)
   \<and> (trackingPath (handleLocationUpdate_B now loc s) = trackingPath s
       \<or> trackingPath (handleLocationUpdate_B now loc s) = trackingPath s @ [point (now, loc)])
   \<and> (currentLocation s = None \<longrightarrow>
        trackingPath (handleLocationUpdate_B now loc s) = trackingPath s)"
proof -
  have "carRotation (handleLocationUpdate_A now loc s) =
       (case currentLocation s of None \<Rightarrow> carRotation s | Some cur \<Rightarrow> heading cur loc)"
    by (simp add: handleLocationUpdate_A_def Let_def split: option.splits)
  moreover have "carRotation (handleLocationUpdate_B now loc s) =
       (case currentLocation s of None \<Rightarrow> carRotation s
        | Some cur \<Rightarrow> if moved cur loc then heading cur loc else carRotation s)"
    by (simp add: handleLocationUpdate_B_def Let_def split: option.splits)
  moreover have "currentLocation (handleLocationUpdate_A now loc s) = Some loc"
    by (simp add: handleLocationUpdate_A_def Let_def split: option.splits)
  moreover have "currentLocation (handleLocationUpdate_B now loc s) = Some loc"
    by (simp add: handleLocationUpdate_B_def Let_def split: option.splits)
  moreover have "currentLocation s = None \<longrightarrow>
        trackingPath (handleLocationUpdate_B now loc s) = trackingPath s"
    by (simp add: handleLocationUpdate_B_def)
  ultimately show ?thesis
    using track_A [of now loc s] track_B_cases [of now loc s] by simp
qed

theorem handleLocationUpdate_effect_witness:
  "currentLocation initial_B = None
   \<and> trackingPath (handleLocationUpdate_B 1000 \<lparr>lat = 1, lng = 2\<rparr> initial_B) = []
   \<and> currentLocation (handleLocationUpdate_B 1000 \<lparr>lat = 1, lng = 2\<rparr> initial_B)
       = Some \<lparr>lat = 1, lng = 2\<rparr>
   \<and> carRotation (handleLocationUpdate_A 1000 \<lparr>lat = 1, lng = 2\<rparr> initial_B) = 0
   \<and> trackingPath (handleLocationUpdate_A 1000 \<lparr>lat = 1, lng = 2\<rparr> initial_B) = []"
  using handleLocationUpdate_effect [of 1000 "\<lparr>lat = 1, lng = 2\<rparr>" initial_B]
  by (simp add: initial_B_def handleLocationUpdate_B_def handleLocationUpdate_A_def Let_def)

text \<open>
  C10, as the claim states it, fails on variant A: with tracking on, the first location
  update of a session appends a track point.
\<close>

theorem handleLocationUpdate_A_first_update_appends:
  "currentLocation (initial_A\<lparr>isNavigating := True\<rparr>) = None
   \<and> trackingPath (handleLocationUpdate_A 1000 \<lparr>lat = 1, lng = 2\<rparr>
        (initial_A\<lparr>isNavigating := True\<rparr>))
      = [\<lparr>timestamp = 1000, location = \<lparr>lat = 1, lng = 2\<rparr>\<rparr>]"
  by (simp add: handleLocationUpdate_A_def initial_A_def initial_B_def Let_def)

text \<open>
  C10, amended. When \<open>currentLocation\<close> is null, the handler of variant B only sets
  \<open>currentLocation\<close>: no track point is appended and the heading is left as it is,
  whatever the tracking flag. The handler of variant A sets \<open>currentLocation\<close>, leaves
  the heading as it is, and appends a track point exactly when tracking is on.
\<close>

theorem handleLocationUpdate_first_sample:
  assumes "currentLocation s = None"
  shows "handleLocationUpdate_B now loc s = s\<lparr>currentLocation := Some loc\<rparr>
   \<and> handleLocationUpdate_A now loc s =
       s\<lparr>currentLocation := Some loc,
         trackingPath := (if isNavigating s then trackingPath s @ [point (now, loc)]
                          else trackingPath s)\<rparr>"
  using assms
  by (simp add: handleLocationUpdate_B_def handleLocationUpdate_A_def Let_def point_def)

theorem handleLocationUpdate_first_sample_witness:
  "currentLocation (initial_B\<lparr>isNavigating := True\<rparr>) = None
   \<and> handleLocationUpdate_B 1000 \<lparr>lat = 1, lng = 2\<rparr> (initial_B\<lparr>isNavigating := True\<rparr>)
       = initial_B\<lparr>isNavigating := True, currentLocation := Some \<lparr>lat = 1, lng = 2\<rparr>\<rparr>
   \<and> trackingPath (handleLocationUpdate_B 1000 \<lparr>lat = 1, lng = 2\<rparr>
        (initial_B\<lparr>isNavigating := True\<rparr>)) = []
   \<and> carRotation (handleLocationUpdate_B 1000 \<lparr>lat = 1, lng = 2\<rparr>
        (initial_B\<lparr>isNavigating := True\<rparr>)) = 0"
proof -
  have h: "currentLocation (initial_B\<lparr>isNavigating := True\<rparr>) = None"
    by (simp add: initial_B_def)
  show ?thesis
    using h handleLocationUpdate_first_sample [OF h, of 1000 "\<lparr>lat = 1, lng = 2\<rparr>"]
    by (simp add: initial_B_def)
qed

subsection \<open>Discovery responses\<close>

text \<open>
  C4, as the claim states it, fails: the ids are random draws, and nothing in the code
  keeps two draws from being equal. With a random source that yields the same string
  twice, the two business points of a response get the same id.
\<close>

theorem applyCityData_equal_ids:
  "map b_id (businesses (snd (applyCityData (\<lambda>k. ''x7k2q'')
      (JObj [(''bars'', JArr [JObj [(''name'', JStr ''A'')], JObj [(''name'', JStr ''B'')]]),
             (''districts'', JArr [])]) 0 0 ''X'' initial_B))) = [''x7k2q'', ''x7k2q'']"
  by (simp add: applyCityData_def mkBusinesses_def)

text \<open>
  C4, amended. Applying a parsed response whose \<open>bars\<close> is an array of N elements and
  whose \<open>districts\<close> is an array of M elements (by \<open>applyCityData\<close> in variant B, by
  the body of \<open>fetchCityData\<close> in variant A) succeeds and replaces the collections by
  exactly N business points, one per bar and in order, each with status \<open>pending\<close>,
  and exactly M districts, each with \<open>covered = false\<close>. Their ids are the N + M strings
  drawn from the random source, in order: they are pairwise different exactly when those
  draws are.
\<close>

theorem applyCityData_counts:
  assumes "get_prop result ''bars'' = Inr (Some (JArr bars))"
    and "get_prop result ''districts'' = Inr (Some (JArr ds))"
  shows "fst (applyCityData ids result la lo placeName s) = None
    \<and> businesses (snd (applyCityData ids result la lo placeName s)) = mkBusinesses ids bars
    \<and> districts (snd (applyCityData ids result la lo placeName s)) =
        mkDistricts ids (length bars) ds
    \<and> businesses (fetchCityData_A ids (Parsed result) placeName s) = mkBusinesses ids bars
    \<and> districts (fetchCityData_A ids (Parsed result) placeName s) =
        mkDistricts ids (length bars) ds
    \<and> length (mkBusinesses ids bars) = length bars
    \<and> length (mkDistricts ids (length bars) ds) = length ds
    \<and> map b_seed (mkBusinesses ids bars) = bars
    \<and> map d_seed (mkDistricts ids (length bars) ds) = ds
    \<and> map b_status (mkBusinesses ids bars) = replicate (length bars) pending
    \<and> map covered (mkDistricts ids (length bars) ds) = replicate (length ds) False
    \<and> map b_id (mkBusinesses ids bars) @ map d_id (mkDistricts ids (length bars) ds) =
        map ids [0..<length bars + length ds]
    \<and> (distinct (map b_id (mkBusinesses ids bars) @ map d_id (mkDistricts ids (length bars) ds))
        \<longleftrightarrow> inj_on ids {0..<length bars + length ds})"
proof -
  have "distinct (map ids [0..<length bars + length ds]) \<longleftrightarrow>
        inj_on ids {0..<length bars + length ds}"
    by (simp add: distinct_map)
  then show ?thesis
    using applyCityData_collections [OF assms, of ids la lo placeName s]
      fetchCityData_A_collections [OF assms, of ids placeName s]
    unfolding all_ids
    by (simp add: mkBusinesses_length mkBusinesses_seeds mkBusinesses_status
        mkDistricts_length mkDistricts_seeds mkDistricts_covered)
qed

theorem applyCityData_counts_witness:
  "get_prop (JObj [(''cityName'', JStr ''Sobral''),
        (''bars'', JArr [JObj [(''name'', JStr ''A'')], JObj [(''name'', JStr ''B'')]]),
        (''districts'', JArr [JObj [(''name'', JStr ''Centro'')]])]) ''bars''
     = Inr (Some (JArr [JObj [(''name'', JStr ''A'')], JObj [(''name'', JStr ''B'')]]))
   \<and> get_prop (JObj [(''cityName'', JStr ''Sobral''),
        (''bars'', JArr [JObj [(''name'', JStr ''A'')], JObj [(''name'', JStr ''B'')]]),
        (''districts'', JArr [JObj [(''name'', JStr ''Centro'')]])]) ''districts''
     = Inr (Some (JArr [JObj [(''name'', JStr ''Centro'')]]))
   \<and> businesses (snd (applyCityData sample_ids (JObj [(''cityName'', JStr ''Sobral''),
        (''bars'', JArr [JObj [(''name'', JStr ''A'')], JObj [(''name'', JStr ''B'')]]),
        (''districts'', JArr [JObj [(''name'', JStr ''Centro'')]])]) 1 2 ''X'' initial_B))
     = [\<lparr>b_seed = JObj [(''name'', JStr ''A'')], b_id = ''p0'', b_status = pending\<rparr>,
        \<lparr>b_seed = JObj [(''name'', JStr ''B'')], b_id = ''p1'', b_status = pending\<rparr>]
   \<and> districts (snd (applyCityData sample_ids (JObj [(''cityName'', JStr ''Sobral''),
        (''bars'', JArr [JObj [(''name'', JStr ''A'')], JObj [(''name'', JStr ''B'')]]),
        (''districts'', JArr [JObj [(''name'', JStr ''Centro'')]])]) 1 2 ''X'' initial_B))
     = [\<lparr>d_seed = JObj [(''name'', JStr ''Centro'')], d_id = ''p2'', covered = False\<rparr>]"
proof -
  let ?r = "JObj [(''cityName'', JStr ''Sobral''),
        (''bars'', JArr [JObj [(''name'', JStr ''A'')], JObj [(''name'', JStr ''B'')]]),
        (''districts'', JArr [JObj [(''name'', JStr ''Centro'')]])]"
  have h1: "get_prop ?r ''bars''
      = Inr (Some (JArr [JObj [(''name'', JStr ''A'')], JObj [(''name'', JStr ''B'')]]))"
    by simp
  have h2: "get_prop ?r ''districts'' = Inr (Some (JArr [JObj [(''name'', JStr ''Centro'')]]))"
    by simp
  show ?thesis
    using applyCityData_counts [OF h1 h2, of sample_ids 1 2 "''X''" initial_B]
    by (simp add: mkBusinesses_def mkDistricts_def js_eval)
qed


subsection \<open>The cache\<close>










subsection \<open>Searches and their replies\<close>


















text \<open>
  C9 does not hold of the code. A first payload is loaded, then a payload that parses to
  an object without \<open>bars\<close> and \<open>districts\<close> arrives for another place:
  \<open>result.bars.map\<close> throws, the error is caught, and the session is left with the new
  city name over the business points of the first place (they are not emptied), while the
  payload has already been stored in the cache. The next call for that place takes the
  payload from the cache and applies it outside any \<open>try\<close>: the \<open>TypeError\<close> leaves
  \<open>fetchCityData\<close> uncaught.
\<close>

theorem malformed_payload_keeps_collections:
  "\<forall>sm.
   businesses (sess (run sm malformed_then_cached world_B))
     = [\<lparr>b_seed = JObj [(''name'', JStr ''Joe'')], b_id = ''p0'', b_status = pending\<rparr>]
   \<and> cityName (sess (run sm malformed_then_cached world_B)) = JStr ''Sobral''
   \<and> searchCache (run sm malformed_then_cached world_B) ''-3.6861,-40.3481'' = Some malformed_city
   \<and> unhandled (run sm malformed_then_cached world_B) = []
   \<and> unhandled (run sm (malformed_then_cached
        @ [FetchCity (- 36861 / 10000) (- 403481 / 10000) ''Local'' sample_ids]) world_B)
       = [TypeError]
   \<and> fst (applyCityData sample_ids malformed_city (- 36861 / 10000) (- 403481 / 10000)
        ''Local'' initial_B) = Some TypeError"
  by (simp add: example_defs world_eval js_eval)

subsection \<open>Street routes\<close>

lemma string_of_nat_digit: "k < 10 \<Longrightarrow> string_of_nat k = [digit k]"
  by (subst string_of_nat.simps) simp

lemma pad_one: "k < 10 \<Longrightarrow> pad (Suc 0) k = [digit k]"
  by (simp add: pad_def string_of_nat_digit)

lemma toFixed_one:
  assumes "0 \<le> x"
  shows "toFixed 1 x = string_of_nat (nat \<lfloor>x * 10 + 1 / 2\<rfloor> div 10) @ ''.''
           @ [digit (nat \<lfloor>x * 10 + 1 / 2\<rfloor> mod 10)]"
  using assms by (simp add: toFixed_def Let_def pad_one)

lemma nearest_tenth:
  assumes "0 \<le> x"
  shows "\<bar>real (nat \<lfloor>x * 10 + 1 / 2\<rfloor>) / 10 - x\<bar> \<le> 1 / 20"
proof -
  have nn: "0 \<le> \<lfloor>x * 10 + 1 / 2\<rfloor>" using assms by simp
  then have eq: "real (nat \<lfloor>x * 10 + 1 / 2\<rfloor>) = real_of_int \<lfloor>x * 10 + 1 / 2\<rfloor>"
    by simp
  have "real_of_int \<lfloor>x * 10 + 1 / 2\<rfloor> \<le> x * 10 + 1 / 2"
    and "x * 10 + 1 / 2 < real_of_int \<lfloor>x * 10 + 1 / 2\<rfloor> + 1"
    by linarith+
  then show ?thesis unfolding eq by linarith
qed

lemma Math_round_near: "\<bar>real_of_int (Math_round y) - y\<bar> \<le> 1 / 2"
proof -
  have "real_of_int \<lfloor>y + 1 / 2\<rfloor> \<le> y + 1 / 2" and "y + 1 / 2 < real_of_int \<lfloor>y + 1 / 2\<rfloor> + 1"
    by linarith+
  then show ?thesis unfolding Math_round_def by linarith
qed

lemma Math_round_nonneg: "0 \<le> y \<Longrightarrow> 0 \<le> Math_round y"
  by (simp add: Math_round_def)

lemma Date_value_near: "\<bar>real_of_int (Date_value v) - v\<bar> < 1"
  unfolding Date_value_def by (cases "0 \<le> v") (simp; linarith)+

lemmas bits_numeral = bits.simps [of "numeral k" for k] bits.simps [of 0] bits.simps [of 1]
  bits.simps [of "Suc 0"]

lemmas double_eval = double_def exponent_def round_even_def bits_numeral Let_def

lemma bits_upper: "n < 2 ^ bits n"
proof (induction n rule: bits.induct)
  case (1 n)
  show ?case
  proof (cases "n = 0")
    case True
    then show ?thesis by (simp add: bits.simps [of 0])
  next
    case False
    with 1 have "n div 2 < 2 ^ bits (n div 2)" by simp
    then have "n < 2 * 2 ^ bits (n div 2)" by linarith
    moreover have "bits n = Suc (bits (n div 2))"
      using False by (subst bits.simps) simp
    ultimately show ?thesis by simp
  qed
qed

lemma bits_lower: "0 < n \<Longrightarrow> 2 ^ (bits n - 1) \<le> n"
proof (induction n rule: bits.induct)
  case (1 n)
  have bn: "bits n = Suc (bits (n div 2))"
    using "1.prems" by (subst bits.simps) simp
  show ?case
  proof (cases "n div 2 = 0")
    case True
    then have "bits (n div 2) = 0" by (simp add: bits.simps [of 0])
    with bn "1.prems" show ?thesis by simp
  next
    case False
    then have pos: "0 < n div 2" by simp
    with 1 have ih: "2 ^ (bits (n div 2) - 1) \<le> n div 2" by simp
    have "bits (n div 2) = Suc (bits (n div 2 div 2))"
      using pos by (subst bits.simps) simp
    then have "(2::nat) ^ (bits n - 1) = 2 * 2 ^ (bits (n div 2) - 1)"
      using bn by simp
    with ih show ?thesis by linarith
  qed
qed

lemma round_even_near: "\<bar>real_of_int (round_even r) - r\<bar> \<le> 1 / 2"
proof -
  have "real_of_int \<lfloor>r\<rfloor> \<le> r" and "r < real_of_int \<lfloor>r\<rfloor> + 1" by linarith+
  then show ?thesis
    unfolding round_even_def Let_def by (auto simp: abs_le_iff) 
qed

lemma round_even_nonneg: "0 \<le> r \<Longrightarrow> 0 \<le> round_even r"
  unfolding round_even_def Let_def by (auto simp: algebra_simps) 

lemma exponent_lower:
  assumes "0 < x"
  shows "2 powi (exponent x) \<le> x"
proof (cases "1 \<le> x")
  case True
  let ?n = "nat \<lfloor>x\<rfloor>"
  have n: "0 < ?n" using True by simp
  have bn: "bits ?n = Suc (bits (?n div 2))"
    using n by (subst bits.simps) simp
  then have "exponent x = int (bits ?n - 1)"
    using True by (simp add: exponent_def)
  then have "2 powi (exponent x) = (2::real) ^ (bits ?n - 1)"
    by simp
  also have "\<dots> = real (2 ^ (bits ?n - 1))" by simp
  also have "\<dots> \<le> real ?n"
    using bits_lower [OF n] by (simp only: of_nat_le_iff)
  also have "\<dots> \<le> x" using True by simp
  finally show ?thesis .
next
  case False
  let ?m = "nat \<lceil>1 / x\<rceil>"
  let ?b = "bits (?m - 1)"
  have "1 < 1 / x" using assms False by simp
  have "1 / x \<le> real_of_int \<lceil>1 / x\<rceil>" by linarith
  also have "\<dots> = real ?m" using \<open>1 < 1 / x\<close> by simp
  also have "\<dots> \<le> real (2 ^ ?b)"
  proof -
    have "?m - 1 < 2 ^ ?b" by (rule bits_upper)
    then have "?m \<le> 2 ^ ?b" by linarith
    then show ?thesis by (simp only: of_nat_le_iff)
  qed
  finally have le: "1 / x \<le> 2 ^ ?b" by simp
  have "exponent x = - int ?b" using False by (simp add: exponent_def)
  then have "2 powi (exponent x) = 1 / (2::real) ^ ?b"
    by (simp add: power_int_minus inverse_eq_divide)
  also have "\<dots> \<le> x"
    using le assms by (simp add: field_simps)
  finally show ?thesis .
qed

lemma double_powi:
  assumes "x \<noteq> 0"
  shows "double x = sgn x * (of_int (round_even (\<bar>x\<bar> / 2 powi (exponent \<bar>x\<bar> - 52)))
           * 2 powi (exponent \<bar>x\<bar> - 52))"
proof (cases "0 \<le> exponent \<bar>x\<bar> - 52")
  case True
  then show ?thesis
    using assms by (simp add: double_def Let_def power_int_def)
next
  case False
  then have "(2::real) powi (exponent \<bar>x\<bar> - 52) = 1 / 2 ^ nat (- (exponent \<bar>x\<bar> - 52))"
    by (simp add: power_int_def power_one_over inverse_eq_divide)
  then show ?thesis
    using assms False by (simp add: double_def Let_def)
qed

lemma double_error:
  assumes "0 \<le> x"
  shows "\<bar>double x - x\<bar> \<le> x / 2 ^ 53" and "0 \<le> double x"
proof -
  show "\<bar>double x - x\<bar> \<le> x / 2 ^ 53"
  proof (cases "x = 0")
    case True
    then show ?thesis by (simp add: double_def)
  next
    case False
    with assms have pos: "0 < x" by simp
    define u :: real where "u = 2 powi (exponent x - 52)"
    define k where "k = round_even (x / u)"
    have u: "0 < u" by (simp add: u_def)
    have ue: "u = 2 powi (exponent x) / 2 ^ 52"
      by (simp add: u_def power_int_diff)
    have d: "double x = of_int k * u"
      using double_powi [OF False] pos by (simp add: u_def k_def)
    have "\<bar>of_int k - x / u\<bar> \<le> 1 / 2"
      unfolding k_def by (rule round_even_near)
    then have "\<bar>of_int k - x / u\<bar> * u \<le> 1 / 2 * u"
      using u by (intro mult_right_mono) simp_all
    moreover have "\<bar>of_int k - x / u\<bar> * u = \<bar>of_int k * u - x\<bar>"
    proof -
      have "of_int k * u - x = (of_int k - x / u) * u"
        using u by (simp add: field_simps)
      then show ?thesis using u by (simp add: abs_mult)
    qed
    ultimately have "\<bar>double x - x\<bar> \<le> u / 2" by (simp add: d)
    also have "\<dots> = 2 powi (exponent x) / 2 ^ 53" by (simp add: ue)
    also have "\<dots> \<le> x / 2 ^ 53"
      using exponent_lower [OF pos] by (simp add: divide_right_mono)
    finally show ?thesis .
  qed
  show "0 \<le> double x"
  proof (cases "x = 0")
    case True
    then show ?thesis by (simp add: double_def)
  next
    case False
    with assms have pos: "0 < x" by simp
    have "0 \<le> round_even (x / 2 powi (exponent x - 52))"
      using pos by (intro round_even_nonneg) simp
    then show ?thesis
      using double_powi [OF False] pos by simp
  qed
qed

text \<open>
  C8. For every successful route response with a distance of \<open>d\<close> metres and a duration
  of \<open>s\<close> seconds (both Numbers, non-negative, within the range of plain decimal
  notation and of \<open>Date\<close>), \<open>fetchStreetRoute\<close> returns the path with each pair swapped
  to \<open>[lat, lng]\<close>; as distance text the Number \<open>d / 1000\<close> in \<open>toFixed(1)\<close> form
  followed by \<open>km\<close>, that is the digits of the nearest number of tenths, with the last
  digit after the point; as duration text the digits of \<open>Math.round\<close> of the Number
  \<open>s / 60\<close>, the integer nearest to it, followed by \<open>min\<close>; and as arrival time the
  formatted instant \<open>Date.now() + s * 1000\<close> milliseconds, computed in Number arithmetic
  with \<open>Date.now()\<close> read when the response is handled. Each Number operation is within
  one part in \<open>2^53\<close> of the exact result. The result is a string fixed at that moment.
\<close>

theorem fetchStreetRoute_texts:
  assumes "double d = d" and "0 \<le> d" and "d = 0 \<or> 1 / 10 ^ 300 \<le> d"
    and "d / 1000 < 10 ^ 21"
    and "double s = s" and "0 \<le> s" and "s = 0 \<or> 1 / 10 ^ 300 \<le> s"
    and "s / 60 < 10 ^ 21"
    and "0 \<le> now" and "of_int now + s * 1000 \<le> 864 * 10 ^ 13"
  shows "fetchStreetRoute toLocaleTimeString now
           (RouteData (\<lparr>osrm_distance = d, osrm_duration = s, osrm_coordinates = cs\<rparr> # rest)) =
      Some \<lparr>sr_points = map (\<lambda>(x, y). (y, x)) cs,
            sr_distance = toFixed 1 (double (d / 1000)) @ '' km'',
            sr_time = string_of_int (Math_round (double (s / 60))) @ '' min'',
            sr_arrivalTime = toLocaleTimeString
              (Date_value (double (of_int now + double (s * 1000))))\<rparr>
    \<and> toFixed 1 (double (d / 1000)) =
        string_of_nat (nat \<lfloor>double (d / 1000) * 10 + 1 / 2\<rfloor> div 10) @ ''.''
           @ [digit (nat \<lfloor>double (d / 1000) * 10 + 1 / 2\<rfloor> mod 10)]
    \<and> \<bar>real (nat \<lfloor>double (d / 1000) * 10 + 1 / 2\<rfloor>) / 10 - double (d / 1000)\<bar> \<le> 1 / 20
    \<and> \<bar>double (d / 1000) - d / 1000\<bar> \<le> d / 1000 / 2 ^ 53
    \<and> string_of_int (Math_round (double (s / 60))) =
        string_of_nat (nat (Math_round (double (s / 60))))
    \<and> \<bar>real_of_int (Math_round (double (s / 60))) - double (s / 60)\<bar> \<le> 1 / 2
    \<and> \<bar>double (s / 60) - s / 60\<bar> \<le> s / 60 / 2 ^ 53
    \<and> \<bar>real_of_int (Date_value (double (of_int now + double (s * 1000))))
         - double (of_int now + double (s * 1000))\<bar> < 1
    \<and> \<bar>double (of_int now + double (s * 1000)) - (of_int now + double (s * 1000))\<bar>
        \<le> (of_int now + double (s * 1000)) / 2 ^ 53
    \<and> \<bar>double (s * 1000) - s * 1000\<bar> \<le> s * 1000 / 2 ^ 53"
proof -
  have x: "0 \<le> d / 1000" using assms(2) by simp
  have y: "0 \<le> s / 60" and z: "0 \<le> s * 1000" using assms(6) by simp_all
  note q = double_error [OF x]
  note m = double_error [OF y]
  note p = double_error [OF z]
  have w: "0 \<le> of_int now + double (s * 1000)" using assms(9) p(2) by simp
  note a = double_error [OF w]
  have "0 \<le> Math_round (double (s / 60))" using m(2) by (rule Math_round_nonneg)
  then have "string_of_int (Math_round (double (s / 60))) =
      string_of_nat (nat (Math_round (double (s / 60))))"
    by (simp add: string_of_int_def)
  then show ?thesis
    using toFixed_one [OF q(2)] nearest_tenth [OF q(2)] q(1) m(1) p(1) a(1)
      Math_round_near [of "double (s / 60)"]
      Date_value_near [of "double (of_int now + double (s * 1000))"]
    by (simp add: fetchStreetRoute_def)
qed

theorem fetchStreetRoute_texts_witness:
  "double 1200 = 1200 \<and> (0::real) \<le> 1200 \<and> (1::real) / 10 ^ 300 \<le> 1200
   \<and> (1200::real) / 1000 < 10 ^ 21
   \<and> double 300 = 300 \<and> (0::real) \<le> 300 \<and> (1::real) / 10 ^ 300 \<le> 300
   \<and> (300::real) / 60 < 10 ^ 21
   \<and> (0::int) \<le> 1700000000000
   \<and> of_int 1700000000000 + (300::real) * 1000 \<le> 864 * 10 ^ 13
   \<and> fetchStreetRoute string_of_int 1700000000000
        (RouteData [\<lparr>osrm_distance = 1200, osrm_duration = 300,
                      osrm_coordinates = [(20, 10), (20001 / 1000, 10001 / 1000)]\<rparr>])
      = Some \<lparr>sr_points = [(10, 20), (10001 / 1000, 20001 / 1000)],
              sr_distance = ''1.2 km'', sr_time = ''5 min'',
              sr_arrivalTime = ''1700000300000''\<rparr>"
proof -
  have h1: "double 1200 = 1200" and h5: "double 300 = 300"
    by (simp_all add: double_eval)
  have h2: "(0::real) \<le> 1200" and h3: "(1200::real) = 0 \<or> 1 / 10 ^ 300 \<le> (1200::real)"
    and h4: "(1200::real) / 1000 < 10 ^ 21"
    and h6: "(0::real) \<le> 300" and h7: "(300::real) = 0 \<or> 1 / 10 ^ 300 \<le> (300::real)"
    and h8: "(300::real) / 60 < 10 ^ 21"
    and h9: "(0::int) \<le> 1700000000000"
    and h10: "of_int 1700000000000 + (300::real) * 1000 \<le> 864 * 10 ^ 13"
    by simp_all
  have r: "fetchStreetRoute string_of_int 1700000000000
        (RouteData [\<lparr>osrm_distance = 1200, osrm_duration = 300,
                      osrm_coordinates = [(20, 10), (20001 / 1000, 10001 / 1000)]\<rparr>])
      = Some \<lparr>sr_points = [(10, 20), (10001 / 1000, 20001 / 1000)],
              sr_distance = ''1.2 km'', sr_time = ''5 min'',
              sr_arrivalTime = ''1700000300000''\<rparr>"
    using fetchStreetRoute_texts [OF h1 h2 h3 h4 h5 h6 h7 h8 h9 h10, of string_of_int
        "[(20, 10), (20001 / 1000, 10001 / 1000)]" "[]"]
    by (simp add: double_eval js_eval Date_value_def)
  show ?thesis
    using h1 h5 r by simp
qed

text \<open>
  The Number quotient matters: for 1150 metres the quotient is the binary64 value just
  below 1.15, and the distance text is \<open>1.1 km\<close>.
\<close>

lemma fetchStreetRoute_1150:
  "map_option sr_distance (fetchStreetRoute string_of_int 1700000000000
      (RouteData [\<lparr>osrm_distance = 1150, osrm_duration = 300, osrm_coordinates = []\<rparr>]))
   = Some ''1.1 km''"
  by (simp add: fetchStreetRoute_def double_eval js_eval)

end
